theory Spec2Isabelle
  imports Complex_Main
begin

section \<open>SQL values\<close>

text \<open>
  The star ledger lives in PL/pgSQL functions of the migrations
  \<^verbatim>\<open>20251106230001_...sql\<close> (\<^verbatim>\<open>process_post_view(text, uuid)\<close>,
  \<^verbatim>\<open>process_story_view(text, uuid)\<close>) and \<^verbatim>\<open>20251022023014_...sql\<close>
  (\<^verbatim>\<open>process_story_view(uuid, uuid)\<close>). Each call is one transaction over the
  tables it names; a raised error rolls the whole call back.

  \<^verbatim>\<open>text\<close> is \<^typ>\<open>string\<close>, and \<^verbatim>\<open>uuid\<close> is a type of its own: PostgreSQL has no operator
  that compares a uuid with a text and casts a text to a uuid only on request, so a statement
  that mixes them raises. \<^verbatim>\<open>numeric\<close> is exact decimal arithmetic and is modelled by
  \<^typ>\<open>rat\<close>; \<^verbatim>\<open>integer\<close> and \<^verbatim>\<open>bigint\<close> are \<^typ>\<open>int\<close>. Two stores can leave the range of
  their column and raise: a credit to \<^verbatim>\<open>wallet_balance\<close> and the increment of
  \<^verbatim>\<open>view_count\<close>; both are written out. The deduction from \<^verbatim>\<open>star_balance\<close> cannot: it
  runs only when the balance is not below the price, and the price is positive there (the
  later functions test it, and the constraint on \<^verbatim>\<open>user_storylines.star_price\<close> keeps it
  between 0 and 5).
  A nullable column or variable is an \<^typ>\<open>'a option\<close>, with \<^term>\<open>None\<close> for NULL.
  Foreign keys into \<^verbatim>\<open>auth.users\<close> are not modelled: every uuid passed to a function
  is taken to name an existing user.
\<close>

datatype uuid = Uuid string

text \<open>The text of a uuid, as it appears in a JSON object.\<close>

primrec uuid_text :: "uuid \<Rightarrow> string" where
  "uuid_text (Uuid x) = x"

text \<open>
  The values that \<^verbatim>\<open>json_build_object\<close> and \<^verbatim>\<open>jsonb_build_object\<close> receive, and the
  object they build, with its keys in the order written; a result is read by key.
\<close>

datatype jval = JBool bool | JNum rat | JStr string | JNull

type_synonym json = "(string \<times> jval) list"

text \<open>
  Errors that abort a call (and roll it back). \<^term>\<open>UndefinedFunction\<close> is SQLSTATE 42883
  (\<^verbatim>\<open>operator does not exist: uuid = text\<close>), \<^term>\<open>DatatypeMismatch\<close> is 42804
  (\<^verbatim>\<open>column is of type uuid but expression is of type text\<close>).
\<close>

datatype pg_error =
  NumericFieldOverflow | IntegerOutOfRange | UniqueViolation | NotNullViolation
  | UndefinedFunction | DatatypeMismatch

definition pg_bind :: "pg_error + 'a \<Rightarrow> ('a \<Rightarrow> pg_error + 'b) \<Rightarrow> pg_error + 'b" where
  "pg_bind m f = (case m of Inl e \<Rightarrow> Inl e | Inr x \<Rightarrow> f x)"

definition coalesce :: "'a option \<Rightarrow> 'a \<Rightarrow> 'a" where
  "coalesce x d = (case x of None \<Rightarrow> d | Some v \<Rightarrow> v)"

text \<open>
  Three-valued comparison: a comparison with NULL is NULL, and an \<^verbatim>\<open>IF\<close> takes its
  branch only when the condition is true.
\<close>

definition sql_lt :: "int option \<Rightarrow> int option \<Rightarrow> bool option" where
  "sql_lt a b =
     (case a of None \<Rightarrow> None
      | Some x \<Rightarrow> (case b of None \<Rightarrow> None | Some y \<Rightarrow> Some (x < y)))"

definition sql_eq :: "'a option \<Rightarrow> 'a option \<Rightarrow> bool option" where
  "sql_eq a b =
     (case a of None \<Rightarrow> None
      | Some x \<Rightarrow> (case b of None \<Rightarrow> None | Some y \<Rightarrow> Some (x = y)))"

definition sql_true :: "bool option \<Rightarrow> bool" where
  "sql_true b = (b = Some True)"

text \<open>
  \<^verbatim>\<open>wallet_balance DECIMAL(10,2)\<close>: a stored value is rounded to two decimals (half
  away from zero) and must then be below \<open>10\<^sup>8\<close> in absolute value, else the statement
  raises \<^verbatim>\<open>numeric field overflow\<close>.
\<close>

definition round_half_away :: "rat \<Rightarrow> int" where
  "round_half_away x = (if 0 \<le> x then \<lfloor>x + 1 / 2\<rfloor> else - \<lfloor>- x + 1 / 2\<rfloor>)"

definition decimal_10_2 :: "rat \<Rightarrow> pg_error + rat" where
  "decimal_10_2 x =
     (let r = of_int (round_half_away (x * 100)) / 100
      in if \<bar>r\<bar> < 10 ^ 8 then Inr r else Inl NumericFieldOverflow)"

text \<open>
  \<^verbatim>\<open>x + d\<close> stored into an \<^verbatim>\<open>integer\<close> column: NULL stays NULL, and a sum outside 32 bits
  raises \<^verbatim>\<open>integer out of range\<close>.
\<close>

definition add_int4 :: "int option \<Rightarrow> int \<Rightarrow> pg_error + int option" where
  "add_int4 x d =
     (case x of
        None \<Rightarrow> Inr None
      | Some n \<Rightarrow>
          if - (2 ^ 31) \<le> n + d \<and> n + d < 2 ^ 31 then Inr (Some (n + d))
          else Inl IntegerOutOfRange)"

text \<open>A value that a \<^verbatim>\<open>DECIMAL(10,2)\<close> column can hold.\<close>

definition is_decimal_10_2 :: "rat \<Rightarrow> bool" where
  "is_decimal_10_2 x \<longleftrightarrow> of_int \<lfloor>x * 100\<rfloor> = x * 100 \<and> \<bar>x\<bar> < 10 ^ 8"

section \<open>Tables\<close>

text \<open>
  The id columns are typed as the migrations declare them: \<^verbatim>\<open>user_profiles.id\<close> is a uuid;
  \<^verbatim>\<open>posts.id\<close> is a text (\<^verbatim>\<open>post_likes.post_id TEXT REFERENCES posts(id)\<close>);
  \<^verbatim>\<open>user_storylines.id\<close> is a uuid
  (\<^verbatim>\<open>story_views.story_id uuid REFERENCES user_storylines(id)\<close>, and the same in
  \<^verbatim>\<open>story_transactions\<close>); the user columns are uuids.

  Modelled from the spec: the \<^verbatim>\<open>CREATE TABLE\<close> statements of \<^verbatim>\<open>posts\<close>,
  \<^verbatim>\<open>user_storylines\<close>, \<^verbatim>\<open>post_views\<close>, \<^verbatim>\<open>wallet_history\<close>, \<^verbatim>\<open>view_transactions\<close>
  and \<^verbatim>\<open>user_notifications\<close>, and the column \<^verbatim>\<open>user_profiles.total_earned\<close>, are not
  among the sources. Their rows carry the columns the functions read and write; \<^verbatim>\<open>id\<close> is
  the key of \<^verbatim>\<open>posts\<close> and \<^verbatim>\<open>user_storylines\<close>, the owner (\<^verbatim>\<open>user_id\<close>) of a content
  item is present (the spec's \<^verbatim>\<open>ownerAccountId\<close>), and the columns of \<^verbatim>\<open>post_views\<close>,
  \<^verbatim>\<open>view_transactions\<close> and \<^verbatim>\<open>wallet_history\<close> have the types of the values that
  \<^verbatim>\<open>process_post_view\<close> compares them with and stores in them.
\<close>

record post_row =
  post_user_id :: uuid
  post_star_price :: "int option"
  post_status :: "string option"
  post_view_count :: "int option"

record story_row =
  story_user_id :: uuid
  story_star_price :: "int option"
  story_status :: "string option"
  story_view_count :: "int option"

record profile_row =
  star_balance :: "int option"
  wallet_balance :: "rat option"
  total_earned :: "rat option"

record post_view_row =
  pv_post_id :: string
  pv_user_id :: uuid

record story_view_row =
  sv_story_id :: uuid
  sv_viewer_id :: uuid
  sv_stars_spent :: "int option"

record wallet_history_row =
  wh_user_id :: uuid
  wh_type :: string
  wh_amount :: rat
  wh_currency :: string
  wh_meta :: json

record view_transaction_row =
  vt_post_id :: string
  vt_viewer_id :: uuid
  vt_uploader_id :: uuid
  vt_star_price :: int
  vt_uploader_amount :: rat
  vt_viewer_amount :: rat
  vt_platform_amount :: rat

record story_transaction_row =
  st_story_id :: uuid
  st_uploader_id :: uuid
  st_viewer_id :: uuid
  st_stars_spent :: int
  st_uploader_earn :: rat
  st_viewer_earn :: rat
  st_platform_earn :: rat

text \<open>
  A row of \<^verbatim>\<open>user_notifications\<close>. The columns \<^verbatim>\<open>title\<close> and \<^verbatim>\<open>message\<close> hold
  display text formatted from the same amounts (with non-ASCII symbols) and are left out.
\<close>

record notification_row =
  n_user_id :: uuid
  n_type :: string
  n_notification_category :: string
  n_action_data :: json

record db =
  posts :: "string \<rightharpoonup> post_row"
  user_storylines :: "uuid \<rightharpoonup> story_row"
  user_profiles :: "uuid \<rightharpoonup> profile_row"
  post_views :: "post_view_row list"
  story_views :: "story_view_row list"
  wallet_history :: "wallet_history_row list"
  view_transactions :: "view_transaction_row list"
  story_transactions :: "story_transaction_row list"
  user_notifications :: "notification_row list"

section \<open>Statements\<close>

text \<open>\<^verbatim>\<open>SELECT ... FROM posts WHERE id = p_post_id AND status = 'approved'\<close>\<close>

definition select_post :: "db \<Rightarrow> string \<Rightarrow> post_row option" where
  "select_post s p_post_id =
     (case posts s p_post_id of
        None \<Rightarrow> None
      | Some r \<Rightarrow> if post_status r = Some ''approved'' then Some r else None)"

text \<open>
  \<^verbatim>\<open>SELECT ... FROM user_storylines WHERE id = p_story_id AND status = 'active'\<close>, for a
  \<^verbatim>\<open>p_story_id\<close> that is a uuid.
\<close>

definition select_story :: "db \<Rightarrow> uuid \<Rightarrow> story_row option" where
  "select_story s p_story_id =
     (case user_storylines s p_story_id of
        None \<Rightarrow> None
      | Some r \<Rightarrow> if story_status r = Some ''active'' then Some r else None)"

text \<open>\<^verbatim>\<open>SELECT EXISTS (SELECT 1 FROM post_views WHERE post_id = ... AND user_id = ...)\<close>\<close>

definition post_view_exists :: "db \<Rightarrow> string \<Rightarrow> uuid \<Rightarrow> bool" where
  "post_view_exists s p_post_id p_viewer_id =
     (\<exists>r \<in> set (post_views s). pv_post_id r = p_post_id \<and> pv_user_id r = p_viewer_id)"

text \<open>
  \<^verbatim>\<open>SELECT EXISTS (SELECT 1 FROM story_views WHERE story_id = ... AND viewer_id = ...)\<close>,
  for a uuid \<^verbatim>\<open>p_story_id\<close>.
\<close>

definition story_view_exists :: "db \<Rightarrow> uuid \<Rightarrow> uuid \<Rightarrow> bool" where
  "story_view_exists s p_story_id p_viewer_id =
     (\<exists>r \<in> set (story_views s). sv_story_id r = p_story_id \<and> sv_viewer_id r = p_viewer_id)"

text \<open>
  \<^verbatim>\<open>UPDATE user_profiles SET ... WHERE id = k\<close>: \<^verbatim>\<open>id\<close> is the primary key, so at most
  one row is updated; with no such row the statement updates nothing and succeeds.
\<close>

definition update_user_profiles ::
  "db \<Rightarrow> uuid \<Rightarrow> (profile_row \<Rightarrow> pg_error + profile_row) \<Rightarrow> pg_error + db" where
  "update_user_profiles s k f =
     (case user_profiles s k of
        None \<Rightarrow> Inr s
      | Some r \<Rightarrow> pg_bind (f r) (\<lambda>r'. Inr (s\<lparr>user_profiles := (user_profiles s)(k \<mapsto> r')\<rparr>)))"

text \<open>\<^verbatim>\<open>SET star_balance = star_balance - v_price\<close>\<close>

definition deduct_stars :: "int option \<Rightarrow> profile_row \<Rightarrow> pg_error + profile_row" where
  "deduct_stars v_price r =
     Inr (r\<lparr>star_balance :=
        (case star_balance r of None \<Rightarrow> None
         | Some b \<Rightarrow> (case v_price of None \<Rightarrow> None | Some p \<Rightarrow> Some (b - p)))\<rparr>)"

text \<open>\<^verbatim>\<open>SET wallet_balance = coalesce(wallet_balance,0) + share\<close>\<close>

definition credit_wallet :: "rat option \<Rightarrow> profile_row \<Rightarrow> pg_error + profile_row" where
  "credit_wallet share r =
     (case share of
        None \<Rightarrow> Inr (r\<lparr>wallet_balance := None\<rparr>)
      | Some a \<Rightarrow>
          pg_bind (decimal_10_2 (coalesce (wallet_balance r) 0 + a))
            (\<lambda>w. Inr (r\<lparr>wallet_balance := Some w\<rparr>)))"

text \<open>
  \<^verbatim>\<open>SET wallet_balance = coalesce(wallet_balance,0) + share,
      total_earned = coalesce(total_earned,0) + share\<close>
\<close>

definition credit_wallet_and_total :: "rat \<Rightarrow> profile_row \<Rightarrow> pg_error + profile_row" where
  "credit_wallet_and_total share r =
     pg_bind (decimal_10_2 (coalesce (wallet_balance r) 0 + share))
       (\<lambda>w. Inr (r\<lparr>wallet_balance := Some w,
                     total_earned := Some (coalesce (total_earned r) 0 + share)\<rparr>))"

text \<open>
  \<^verbatim>\<open>INSERT INTO story_views (story_id, viewer_id, stars_spent)\<close> of a uuid
  \<^verbatim>\<open>p_story_id\<close>, under the table's \<^verbatim>\<open>UNIQUE(story_id, viewer_id)\<close>.
\<close>

definition insert_story_view :: "db \<Rightarrow> uuid \<Rightarrow> uuid \<Rightarrow> int option \<Rightarrow> pg_error + db" where
  "insert_story_view s p_story_id p_viewer_id stars =
     (if story_view_exists s p_story_id p_viewer_id then Inl UniqueViolation
      else Inr (s\<lparr>story_views := story_views s @
              [\<lparr>sv_story_id = p_story_id, sv_viewer_id = p_viewer_id, sv_stars_spent = stars\<rparr>]\<rparr>))"

section \<open>The ledger functions of migration 20251106230001\<close>

definition star_value :: rat where
  "star_value = 500"

text \<open>
  The charged step of \<^verbatim>\<open>process_post_view\<close> (from \<^verbatim>\<open>-- Compute NGN earnings from stars\<close>
  to the final \<^verbatim>\<open>RETURN\<close>).
\<close>

definition post_charge ::
  "db \<Rightarrow> string \<Rightarrow> uuid \<Rightarrow> uuid \<Rightarrow> int \<Rightarrow> pg_error + (json \<times> db)" where
  "post_charge s p_post_id p_viewer_id v_uploader v_price =
     (let uploader_share = of_int v_price * star_value * 0.60;
          viewer_share = of_int v_price * star_value * 0.20;
          platform_share = of_int v_price * star_value * 0.20
      in
      pg_bind (update_user_profiles s p_viewer_id (deduct_stars (Some v_price))) (\<lambda>s1.
      pg_bind (update_user_profiles s1 v_uploader (credit_wallet_and_total uploader_share)) (\<lambda>s2.
      pg_bind (update_user_profiles s2 p_viewer_id (credit_wallet (Some viewer_share))) (\<lambda>s3.
      Inr ([(''success'', JBool True), (''viewer_earn'', JNum viewer_share),
            (''charged'', JBool True)],
           s3\<lparr>wallet_history := wallet_history s3 @
                [\<lparr>wh_user_id = v_uploader, wh_type = ''upload_earn'',
                  wh_amount = uploader_share, wh_currency = ''NGN'',
                  wh_meta = [(''post_id'', JStr p_post_id),
                             (''stars_spent'', JNum (of_int v_price))]\<rparr>,
                 \<lparr>wh_user_id = p_viewer_id, wh_type = ''view_earn'',
                  wh_amount = viewer_share, wh_currency = ''NGN'',
                  wh_meta = [(''post_id'', JStr p_post_id),
                             (''stars_spent'', JNum (of_int v_price))]\<rparr>],
              view_transactions := view_transactions s3 @
                [\<lparr>vt_post_id = p_post_id, vt_viewer_id = p_viewer_id,
                  vt_uploader_id = v_uploader, vt_star_price = v_price,
                  vt_uploader_amount = uploader_share,
                  vt_viewer_amount = viewer_share,
                  vt_platform_amount = platform_share\<rparr>]\<rparr>)))))"

definition process_post_view :: "db \<Rightarrow> string \<Rightarrow> uuid \<Rightarrow> pg_error + (json \<times> db)" where
  "process_post_view s p_post_id p_viewer_id =
     (case select_post s p_post_id of
        None \<Rightarrow> Inr ([(''success'', JBool False), (''error'', JStr ''Post not found'')], s)
      | Some v_post \<Rightarrow>
         (let v_uploader = post_user_id v_post;
              v_price = coalesce (post_star_price v_post) 0
          in
          if v_price \<le> 0 \<or> v_uploader = p_viewer_id then
            Inr ([(''success'', JBool True), (''viewer_earn'', JNum 0), (''charged'', JBool False)], s)
          else if post_view_exists s p_post_id p_viewer_id then
            Inr ([(''success'', JBool True), (''viewer_earn'', JNum 0), (''charged'', JBool False)], s)
          else
           (let v_viewer_stars =
                  map_option (\<lambda>r. coalesce (star_balance r) 0) (user_profiles s p_viewer_id)
            in
            if sql_true (sql_lt v_viewer_stars (Some v_price)) then
              Inr ([(''success'', JBool False), (''error'', JStr ''Insufficient stars'')], s)
            else post_charge s p_post_id p_viewer_id v_uploader v_price)))"

text \<open>
  The statements of \<^verbatim>\<open>process_story_view(p_story_id text, p_viewer_id uuid)\<close> that use the
  story id. They compare the text \<^verbatim>\<open>p_story_id\<close> with the uuid columns
  \<^verbatim>\<open>user_storylines.id\<close> and \<^verbatim>\<open>story_views.story_id\<close>, and store it into the uuid columns
  \<^verbatim>\<open>story_views.story_id\<close> and \<^verbatim>\<open>story_transactions.story_id\<close>. None of them can be
  planned: the comparisons raise 42883 and the inserts raise 42804, whatever the tables hold.
\<close>

text \<open>\<^verbatim>\<open>SELECT ... FROM user_storylines WHERE id = p_story_id AND status = 'active'\<close>\<close>

definition select_story_text :: "db \<Rightarrow> string \<Rightarrow> pg_error + story_row option" where
  "select_story_text s p_story_id = Inl UndefinedFunction"

text \<open>\<^verbatim>\<open>SELECT EXISTS (SELECT 1 FROM story_views WHERE story_id = p_story_id AND ...)\<close>\<close>

definition story_view_exists_text :: "db \<Rightarrow> string \<Rightarrow> uuid \<Rightarrow> pg_error + bool" where
  "story_view_exists_text s p_story_id p_viewer_id = Inl UndefinedFunction"

text \<open>\<^verbatim>\<open>INSERT INTO story_views (story_id, viewer_id, stars_spent) VALUES (p_story_id, ...)\<close>\<close>

definition insert_story_view_text ::
  "db \<Rightarrow> string \<Rightarrow> uuid \<Rightarrow> int option \<Rightarrow> pg_error + db" where
  "insert_story_view_text s p_story_id p_viewer_id stars = Inl DatatypeMismatch"

text \<open>\<^verbatim>\<open>INSERT INTO story_transactions (story_id, ...) VALUES (p_story_id, ...)\<close>\<close>

definition insert_story_transaction_text ::
  "db \<Rightarrow> string \<Rightarrow> uuid \<Rightarrow> uuid \<Rightarrow> int \<Rightarrow> rat \<Rightarrow> rat \<Rightarrow> rat \<Rightarrow> pg_error + db" where
  "insert_story_transaction_text s p_story_id v_uploader p_viewer_id stars ue ve pe =
     Inl DatatypeMismatch"

text \<open>
  The charged step of \<^verbatim>\<open>process_story_view\<close> (from \<^verbatim>\<open>-- Compute NGN earnings\<close> to the
  final \<^verbatim>\<open>RETURN\<close>).
\<close>

definition story_charge ::
  "db \<Rightarrow> string \<Rightarrow> uuid \<Rightarrow> uuid \<Rightarrow> int \<Rightarrow> pg_error + (json \<times> db)" where
  "story_charge s p_story_id p_viewer_id v_uploader v_price =
     (let uploader_share = of_int v_price * star_value * 0.60;
          viewer_share = of_int v_price * star_value * 0.20;
          platform_share = of_int v_price * star_value * 0.20
      in
      pg_bind (update_user_profiles s p_viewer_id (deduct_stars (Some v_price))) (\<lambda>s1.
      pg_bind (insert_story_view_text s1 p_story_id p_viewer_id (Some v_price)) (\<lambda>s2.
      pg_bind (update_user_profiles s2 v_uploader (credit_wallet_and_total uploader_share)) (\<lambda>s3.
      pg_bind (update_user_profiles s3 p_viewer_id (credit_wallet (Some viewer_share))) (\<lambda>s4.
      pg_bind (insert_story_transaction_text
                 (s4\<lparr>wallet_history := wallet_history s4 @
                    [\<lparr>wh_user_id = v_uploader, wh_type = ''story_earn'',
                      wh_amount = uploader_share, wh_currency = ''NGN'',
                      wh_meta = [(''story_id'', JStr p_story_id),
                                 (''stars_spent'', JNum (of_int v_price))]\<rparr>,
                     \<lparr>wh_user_id = p_viewer_id, wh_type = ''story_cashback'',
                      wh_amount = viewer_share, wh_currency = ''NGN'',
                      wh_meta = [(''story_id'', JStr p_story_id),
                                 (''stars_spent'', JNum (of_int v_price))]\<rparr>]\<rparr>)
                 p_story_id v_uploader p_viewer_id v_price
                 uploader_share viewer_share platform_share) (\<lambda>s5.
      Inr ([(''success'', JBool True), (''viewer_earn'', JNum viewer_share),
            (''charged'', JBool True)], s5)))))))"

definition process_story_view :: "db \<Rightarrow> string \<Rightarrow> uuid \<Rightarrow> pg_error + (json \<times> db)" where
  "process_story_view s p_story_id p_viewer_id =
     pg_bind (select_story_text s p_story_id) (\<lambda>found.
     (case found of
        None \<Rightarrow> Inr ([(''success'', JBool False), (''error'', JStr ''Story not found'')], s)
      | Some v_story \<Rightarrow>
         (let v_uploader = story_user_id v_story;
              v_price = coalesce (story_star_price v_story) 0
          in
          if v_price \<le> 0 \<or> v_uploader = p_viewer_id then
            Inr ([(''success'', JBool True), (''viewer_earn'', JNum 0), (''charged'', JBool False)], s)
          else
            pg_bind (story_view_exists_text s p_story_id p_viewer_id) (\<lambda>v_view_exists.
            if v_view_exists then
              Inr ([(''success'', JBool True), (''viewer_earn'', JNum 0),
                    (''charged'', JBool False)], s)
            else
             (let v_viewer_stars =
                    map_option (\<lambda>r. coalesce (star_balance r) 0) (user_profiles s p_viewer_id)
              in
              if sql_true (sql_lt v_viewer_stars (Some v_price)) then
                Inr ([(''success'', JBool False), (''error'', JStr ''Insufficient stars'')], s)
              else story_charge s p_story_id p_viewer_id v_uploader v_price)))))"

section \<open>The first story function, of migration 20251022023014\<close>

text \<open>
  \<^verbatim>\<open>process_story_view(p_story_id uuid, p_viewer_id uuid)\<close>. The later migration declares
  its function with a \<^verbatim>\<open>text\<close> first parameter, so this one is a different function of the
  same name, and the one whose parameter has the type of the story id columns. Its variables
  are not coalesced, so they may be NULL.
\<close>

text \<open>\<^verbatim>\<open>UPDATE user_storylines SET view_count = view_count + 1 WHERE id = p_story_id\<close>\<close>

definition increment_view_count :: "db \<Rightarrow> uuid \<Rightarrow> pg_error + db" where
  "increment_view_count s p_story_id =
     (case user_storylines s p_story_id of
        None \<Rightarrow> Inr s
      | Some r \<Rightarrow>
          pg_bind (add_int4 (story_view_count r) 1) (\<lambda>n.
          Inr (s\<lparr>user_storylines := (user_storylines s)(p_story_id \<mapsto>
                 r\<lparr>story_view_count := n\<rparr>)\<rparr>)))"

text \<open>
  \<^verbatim>\<open>INSERT INTO story_transactions (...)\<close>: the columns \<^verbatim>\<open>stars_spent\<close>,
  \<^verbatim>\<open>uploader_earn\<close>, \<^verbatim>\<open>viewer_earn\<close> and \<^verbatim>\<open>platform_earn\<close> are \<^verbatim>\<open>NOT NULL\<close>.
\<close>

definition insert_story_transaction ::
  "db \<Rightarrow> uuid \<Rightarrow> uuid \<Rightarrow> uuid \<Rightarrow> int option \<Rightarrow> rat option \<Rightarrow> rat option \<Rightarrow> rat option
     \<Rightarrow> pg_error + db" where
  "insert_story_transaction s p_story_id v_uploader_id p_viewer_id stars ue ve pe =
     (case (stars, ue, ve, pe) of
        (Some n, Some a, Some b, Some c) \<Rightarrow>
          Inr (s\<lparr>story_transactions := story_transactions s @
                 [\<lparr>st_story_id = p_story_id, st_uploader_id = v_uploader_id,
                   st_viewer_id = p_viewer_id, st_stars_spent = n,
                   st_uploader_earn = a, st_viewer_earn = b, st_platform_earn = c\<rparr>]\<rparr>)
      | _ \<Rightarrow> Inl NotNullViolation)"

definition jnum :: "rat option \<Rightarrow> jval" where
  "jnum x = (case x of None \<Rightarrow> JNull | Some a \<Rightarrow> JNum a)"

text \<open>
  The charged step of \<^verbatim>\<open>process_story_view(uuid, uuid)\<close> (from
  \<^verbatim>\<open>-- Calculate earnings\<close> to the final \<^verbatim>\<open>RETURN\<close>).
\<close>

definition story_charge_uuid ::
  "db \<Rightarrow> uuid \<Rightarrow> uuid \<Rightarrow> uuid \<Rightarrow> int option \<Rightarrow> pg_error + (json \<times> db)" where
  "story_charge_uuid s p_story_id p_viewer_id v_uploader_id v_star_price =
     (let v_uploader_earn = map_option (\<lambda>p. of_int p * star_value * 0.60) v_star_price;
          v_viewer_earn = map_option (\<lambda>p. of_int p * star_value * 0.20) v_star_price;
          v_platform_earn = map_option (\<lambda>p. of_int p * star_value * 0.20) v_star_price
      in
      pg_bind (update_user_profiles s p_viewer_id (deduct_stars v_star_price)) (\<lambda>s1.
      pg_bind (update_user_profiles s1 v_uploader_id (credit_wallet v_uploader_earn)) (\<lambda>s2.
      pg_bind (update_user_profiles s2 p_viewer_id (credit_wallet v_viewer_earn)) (\<lambda>s3.
      pg_bind (insert_story_view s3 p_story_id p_viewer_id v_star_price) (\<lambda>s4.
      pg_bind (insert_story_transaction s4 p_story_id v_uploader_id p_viewer_id
                 v_star_price v_uploader_earn v_viewer_earn v_platform_earn) (\<lambda>s5.
      pg_bind (increment_view_count s5 p_story_id) (\<lambda>s6.
       Inr ([(''success'', JBool True), (''uploader_earn'', jnum v_uploader_earn),
             (''viewer_earn'', jnum v_viewer_earn)],
            s6\<lparr>user_notifications := user_notifications s6 @
                 [\<lparr>n_user_id = v_uploader_id, n_type = ''success'',
                   n_notification_category = ''story_earn'',
                   n_action_data =
                     [(''story_id'', JStr (uuid_text p_story_id)),
                      (''viewer_id'', JStr (uuid_text p_viewer_id)),
                      (''amount'', jnum v_uploader_earn),
                      (''stars'', jnum (map_option of_int v_star_price))]\<rparr>,
                  \<lparr>n_user_id = p_viewer_id, n_type = ''success'',
                   n_notification_category = ''story_cashback'',
                   n_action_data =
                     [(''story_id'', JStr (uuid_text p_story_id)),
                      (''amount'', jnum v_viewer_earn)]\<rparr>]\<rparr>))))))))"

definition process_story_view_uuid :: "db \<Rightarrow> uuid \<Rightarrow> uuid \<Rightarrow> pg_error + (json \<times> db)" where
  "process_story_view_uuid s p_story_id p_viewer_id =
     (case select_story s p_story_id of
        None \<Rightarrow> Inr ([(''success'', JBool False), (''error'', JStr ''Story not found'')], s)
      | Some v_story \<Rightarrow>
         (let v_star_price = story_star_price v_story;
              v_uploader_id = story_user_id v_story
          in
          if story_view_exists s p_story_id p_viewer_id then
            Inr ([(''success'', JBool True), (''already_viewed'', JBool True)], s)
          else if sql_true (sql_eq v_star_price (Some 0)) then
            pg_bind (insert_story_view s p_story_id p_viewer_id (Some 0)) (\<lambda>s1.
            pg_bind (increment_view_count s1 p_story_id) (\<lambda>s2.
            Inr ([(''success'', JBool True), (''free'', JBool True)], s2)))
          else
           (let v_viewer_balance =
                  (case user_profiles s p_viewer_id of None \<Rightarrow> None | Some r \<Rightarrow> star_balance r)
            in
            if sql_true (sql_lt v_viewer_balance v_star_price) then
              Inr ([(''success'', JBool False), (''error'', JStr ''Insufficient stars'')], s)
            else story_charge_uuid s p_story_id p_viewer_id v_uploader_id v_star_price)))"

section \<open>Reading results, and sequences of calls\<close>

definition jget :: "json \<Rightarrow> string \<Rightarrow> jval option" where
  "jget j k = map_of j k"




definition view_transactions_of :: "db \<Rightarrow> string \<Rightarrow> uuid \<Rightarrow> view_transaction_row list" where
  "view_transactions_of s c v =
     filter (\<lambda>r. vt_post_id r = c \<and> vt_viewer_id r = v) (view_transactions s)"

text \<open>
  A call is a transaction: it commits the state it returns, and a raised error leaves the
  state as it was.
\<close>

datatype call = PostView string uuid | StoryView string uuid | StoryViewUuid uuid uuid

definition commit :: "db \<Rightarrow> pg_error + (json \<times> db) \<Rightarrow> db" where
  "commit s r = (case r of Inl e \<Rightarrow> s | Inr (j, s') \<Rightarrow> s')"

fun exec :: "db \<Rightarrow> call \<Rightarrow> db" where
  "exec s (PostView c v) = commit s (process_post_view s c v)"
| "exec s (StoryView c v) = commit s (process_story_view s c v)"
| "exec s (StoryViewUuid c v) = commit s (process_story_view_uuid s c v)"

fun run :: "db \<Rightarrow> call list \<Rightarrow> db" where
  "run s [] = s"
| "run s (c # cs) = run (exec s c) cs"

text \<open>The star balance column of an account: absent row, NULL, or a number.\<close>

definition stars_of :: "db \<Rightarrow> uuid \<Rightarrow> int option option" where
  "stars_of s k = map_option star_balance (user_profiles s k)"

text \<open>Every stored star balance is non-negative.\<close>

definition stars_nonneg :: "db \<Rightarrow> bool" where
  "stars_nonneg s \<longleftrightarrow>
     (\<forall>k r b. user_profiles s k = Some r \<longrightarrow> star_balance r = Some b \<longrightarrow> 0 \<le> b)"



text \<open>A result that reports a charge.\<close>

definition charged :: "json \<Rightarrow> bool" where
  "charged j \<longleftrightarrow> jget j ''charged'' = Some (JBool True)"

section \<open>An example database\<close>

text \<open>
  An owner with an empty wallet; viewers holding five, two and six stars; a viewer holding
  five stars whose wallet is at the largest value of \<^verbatim>\<open>DECIMAL(10,2)\<close>. A story and a post
  priced at three stars, a free story and a free post, a story and a post whose price is NULL,
  a suspended story and a post that is not approved. The uuids are written by name.
\<close>

definition ex_profiles :: "uuid \<rightharpoonup> profile_row" where
  "ex_profiles =
     [Uuid ''owner'' \<mapsto> \<lparr>star_balance = Some 0, wallet_balance = Some 0, total_earned = Some 0\<rparr>,
      Uuid ''viewer'' \<mapsto> \<lparr>star_balance = Some 5, wallet_balance = Some 0, total_earned = Some 0\<rparr>,
      Uuid ''poor'' \<mapsto> \<lparr>star_balance = Some 2, wallet_balance = Some 0, total_earned = Some 0\<rparr>,
      Uuid ''rich'' \<mapsto> \<lparr>star_balance = Some 6, wallet_balance = Some 0, total_earned = Some 0\<rparr>,
      Uuid ''whale'' \<mapsto> \<lparr>star_balance = Some 5, wallet_balance = Some 99999999.99,
                    total_earned = Some 0\<rparr>]"

definition ex_stories :: "uuid \<rightharpoonup> story_row" where
  "ex_stories =
     [Uuid ''s3'' \<mapsto> \<lparr>story_user_id = Uuid ''owner'', story_star_price = Some 3,
                 story_status = Some ''active'', story_view_count = Some 0\<rparr>,
      Uuid ''s0'' \<mapsto> \<lparr>story_user_id = Uuid ''owner'', story_star_price = Some 0,
                 story_status = Some ''active'', story_view_count = Some 0\<rparr>,
      Uuid ''sn'' \<mapsto> \<lparr>story_user_id = Uuid ''owner'', story_star_price = None,
                 story_status = Some ''active'', story_view_count = Some 0\<rparr>,
      Uuid ''sx'' \<mapsto> \<lparr>story_user_id = Uuid ''owner'', story_star_price = Some 3,
                 story_status = Some ''suspended'', story_view_count = Some 0\<rparr>]"

definition ex_posts :: "string \<rightharpoonup> post_row" where
  "ex_posts =
     [''p3'' \<mapsto> \<lparr>post_user_id = Uuid ''owner'', post_star_price = Some 3,
                 post_status = Some ''approved'', post_view_count = Some 0\<rparr>,
      ''p0'' \<mapsto> \<lparr>post_user_id = Uuid ''owner'', post_star_price = Some 0,
                 post_status = Some ''approved'', post_view_count = Some 0\<rparr>,
      ''pn'' \<mapsto> \<lparr>post_user_id = Uuid ''owner'', post_star_price = None,
                 post_status = Some ''approved'', post_view_count = Some 0\<rparr>,
      ''px'' \<mapsto> \<lparr>post_user_id = Uuid ''owner'', post_star_price = Some 3,
                 post_status = Some ''pending'', post_view_count = Some 0\<rparr>]"

definition ex_db :: db where
  "ex_db =
     \<lparr>posts = ex_posts, user_storylines = ex_stories, user_profiles = ex_profiles,
      post_views = [], story_views = [], wallet_history = [], view_transactions = [],
      story_transactions = [], user_notifications = []\<rparr>"

text \<open>The example database after the five-star viewer has paid for the post.\<close>

definition ex_profiles_charged :: "uuid \<rightharpoonup> profile_row" where
  "ex_profiles_charged =
     ex_profiles
       (Uuid ''viewer'' \<mapsto> \<lparr>star_balance = Some 2, wallet_balance = Some 300, total_earned = Some 0\<rparr>,
        Uuid ''owner'' \<mapsto> \<lparr>star_balance = Some 0, wallet_balance = Some 900, total_earned = Some 900\<rparr>)"

definition ex_db_post_viewed :: db where
  "ex_db_post_viewed =
     ex_db\<lparr>user_profiles := ex_profiles_charged,
       wallet_history :=
         [\<lparr>wh_user_id = Uuid ''owner'', wh_type = ''upload_earn'', wh_amount = 900,
           wh_currency = ''NGN'',
           wh_meta = [(''post_id'', JStr ''p3''), (''stars_spent'', JNum 3)]\<rparr>,
          \<lparr>wh_user_id = Uuid ''viewer'', wh_type = ''view_earn'', wh_amount = 300,
           wh_currency = ''NGN'',
           wh_meta = [(''post_id'', JStr ''p3''), (''stars_spent'', JNum 3)]\<rparr>],
       view_transactions :=
         [\<lparr>vt_post_id = ''p3'', vt_viewer_id = Uuid ''viewer'', vt_uploader_id = Uuid ''owner'',
           vt_star_price = 3, vt_uploader_amount = 900, vt_viewer_amount = 300,
           vt_platform_amount = 300\<rparr>]\<rparr>"

text \<open>
  The example database after the five-star viewer has paid for the story through
  \<^verbatim>\<open>process_story_view(uuid, uuid)\<close>.
\<close>

definition ex_db_story_viewed_uuid :: db where
  "ex_db_story_viewed_uuid =
     ex_db\<lparr>user_storylines :=
         ex_stories(Uuid ''s3'' \<mapsto> \<lparr>story_user_id = Uuid ''owner'', story_star_price = Some 3,
                                story_status = Some ''active'', story_view_count = Some 1\<rparr>),
       user_profiles := ex_profiles
         (Uuid ''viewer'' \<mapsto> \<lparr>star_balance = Some 2, wallet_balance = Some 300, total_earned = Some 0\<rparr>,
          Uuid ''owner'' \<mapsto> \<lparr>star_balance = Some 0, wallet_balance = Some 900, total_earned = Some 0\<rparr>),
       story_views := [\<lparr>sv_story_id = Uuid ''s3'', sv_viewer_id = Uuid ''viewer'', sv_stars_spent = Some 3\<rparr>],
       story_transactions :=
         [\<lparr>st_story_id = Uuid ''s3'', st_uploader_id = Uuid ''owner'', st_viewer_id = Uuid ''viewer'',
           st_stars_spent = 3, st_uploader_earn = 900, st_viewer_earn = 300,
           st_platform_earn = 300\<rparr>],
       user_notifications :=
         [\<lparr>n_user_id = Uuid ''owner'', n_type = ''success'', n_notification_category = ''story_earn'',
           n_action_data = [(''story_id'', JStr ''s3''), (''viewer_id'', JStr ''viewer''),
                            (''amount'', JNum 900), (''stars'', JNum 3)]\<rparr>,
          \<lparr>n_user_id = Uuid ''viewer'', n_type = ''success'',
           n_notification_category = ''story_cashback'',
           n_action_data = [(''story_id'', JStr ''s3''), (''amount'', JNum 300)]\<rparr>]\<rparr>"

text \<open>The example database after the six-star viewer has opened the priced post twice.\<close>

definition ex_db_post_viewed_twice :: db where
  "ex_db_post_viewed_twice =
     ex_db\<lparr>user_profiles := ex_profiles
         (Uuid ''rich'' \<mapsto> \<lparr>star_balance = Some 0, wallet_balance = Some 600, total_earned = Some 0\<rparr>,
          Uuid ''owner'' \<mapsto> \<lparr>star_balance = Some 0, wallet_balance = Some 1800,
                        total_earned = Some 1800\<rparr>),
       wallet_history :=
         [\<lparr>wh_user_id = Uuid ''owner'', wh_type = ''upload_earn'', wh_amount = 900,
           wh_currency = ''NGN'',
           wh_meta = [(''post_id'', JStr ''p3''), (''stars_spent'', JNum 3)]\<rparr>,
          \<lparr>wh_user_id = Uuid ''rich'', wh_type = ''view_earn'', wh_amount = 300,
           wh_currency = ''NGN'',
           wh_meta = [(''post_id'', JStr ''p3''), (''stars_spent'', JNum 3)]\<rparr>,
          \<lparr>wh_user_id = Uuid ''owner'', wh_type = ''upload_earn'', wh_amount = 900,
           wh_currency = ''NGN'',
           wh_meta = [(''post_id'', JStr ''p3''), (''stars_spent'', JNum 3)]\<rparr>,
          \<lparr>wh_user_id = Uuid ''rich'', wh_type = ''view_earn'', wh_amount = 300,
           wh_currency = ''NGN'',
           wh_meta = [(''post_id'', JStr ''p3''), (''stars_spent'', JNum 3)]\<rparr>],
       view_transactions :=
         [\<lparr>vt_post_id = ''p3'', vt_viewer_id = Uuid ''rich'', vt_uploader_id = Uuid ''owner'',
           vt_star_price = 3, vt_uploader_amount = 900, vt_viewer_amount = 300,
           vt_platform_amount = 300\<rparr>,
          \<lparr>vt_post_id = ''p3'', vt_viewer_id = Uuid ''rich'', vt_uploader_id = Uuid ''owner'',
           vt_star_price = 3, vt_uploader_amount = 900, vt_viewer_amount = 300,
           vt_platform_amount = 300\<rparr>]\<rparr>"


section \<open>Basic lemmas\<close>

lemma pg_bind_Inr: "pg_bind m f = Inr y \<longleftrightarrow> (\<exists>x. m = Inr x \<and> f x = Inr y)"
  by (cases m) (simp_all add: pg_bind_def)

lemma pg_bind_Inr_simp [simp]: "pg_bind (Inr x) f = f x"
  by (simp add: pg_bind_def)

lemma pg_bind_Inl_simp [simp]: "pg_bind (Inl e) f = Inl e"
  by (simp add: pg_bind_def)

lemma coalesce_simps [simp]: "coalesce (Some x) d = x" "coalesce None d = d"
  by (simp_all add: coalesce_def)

lemma update_user_profiles_Inr:
  assumes "update_user_profiles s k f = Inr s'"
  shows "(user_profiles s k = None \<and> s' = s) \<or>
         (\<exists>r r'. user_profiles s k = Some r \<and> f r = Inr r' \<and>
                  s' = s\<lparr>user_profiles := (user_profiles s)(k \<mapsto> r')\<rparr>)"
  using assms by (auto simp: update_user_profiles_def pg_bind_Inr split: option.splits)

lemma update_user_profiles_tables:
  assumes "update_user_profiles s k f = Inr s'"
  shows "posts s' = posts s" "user_storylines s' = user_storylines s"
    "post_views s' = post_views s" "story_views s' = story_views s"
    "wallet_history s' = wallet_history s" "view_transactions s' = view_transactions s"
    "story_transactions s' = story_transactions s" "user_notifications s' = user_notifications s"
  using update_user_profiles_Inr [OF assms] by auto

text \<open>A value with two decimals and in range is stored as it is.\<close>

lemma round_half_away_of_int: "round_half_away (of_int m) = m"
  by (simp add: round_half_away_def) linarith

lemma decimal_10_2_exact:
  assumes "of_int m = y * 100" "\<bar>y\<bar> < 10 ^ 8"
  shows "decimal_10_2 y = Inr y"
proof -
  have "round_half_away (y * 100) = m"
    using assms(1) round_half_away_of_int [of m] by simp
  moreover have "of_int m / 100 = y"
    using assms(1) by simp
  ultimately show ?thesis
    using assms(2) by (simp add: decimal_10_2_def)
qed

lemma is_decimal_10_2_hundredths:
  "is_decimal_10_2 (of_int m / 100) \<longleftrightarrow> \<bar>m\<bar> < 10 ^ 10"
proof -
  have "\<bar>rat_of_int m / 100\<bar> < 10 ^ 8 \<longleftrightarrow> \<bar>rat_of_int m\<bar> < 10 ^ 10"
    by simp
  also have "\<dots> \<longleftrightarrow> rat_of_int \<bar>m\<bar> < rat_of_int (10 ^ 10)"
    by simp
  also have "\<dots> \<longleftrightarrow> \<bar>m\<bar> < 10 ^ 10"
    by (simp only: of_int_less_iff)
  finally show ?thesis
    by (simp add: is_decimal_10_2_def)
qed

lemma decimal_10_2_add_int:
  assumes "is_decimal_10_2 x" "\<bar>x + of_int n\<bar> < 10 ^ 8"
  shows "decimal_10_2 (x + of_int n) = Inr (x + of_int n)"
proof -
  from assms(1) have "of_int \<lfloor>x * 100\<rfloor> = x * 100"
    by (simp add: is_decimal_10_2_def)
  then have "of_int (\<lfloor>x * 100\<rfloor> + n * 100) = (x + of_int n) * 100"
    by (simp add: algebra_simps)
  then show ?thesis
    using assms(2) by (rule decimal_10_2_exact)
qed

lemma abs_add_nonneg_less:
  fixes x k B :: rat
  shows "\<bar>x\<bar> < B \<Longrightarrow> x + k < B \<Longrightarrow> 0 \<le> k \<Longrightarrow> \<bar>x + k\<bar> < B"
  by linarith

lemma credit_in_range:
  assumes "is_decimal_10_2 x" "x + numeral k < 10 ^ 8"
  shows "decimal_10_2 (x + numeral k) = Inr (x + numeral k)"
proof -
  from assms(1) have "\<bar>x\<bar> < 10 ^ 8" by (simp add: is_decimal_10_2_def)
  then have "\<bar>x + numeral k\<bar> < 10 ^ 8"
    using assms(2) by (rule abs_add_nonneg_less) simp
  then have "\<bar>x + of_int (numeral k)\<bar> < 10 ^ 8"
    by simp
  with assms(1) have "decimal_10_2 (x + of_int (numeral k)) = Inr (x + of_int (numeral k))"
    by (rule decimal_10_2_add_int)
  then show ?thesis by simp
qed



lemma ex_db_tables:
  "posts ex_db = ex_posts" "user_storylines ex_db = ex_stories"
  "user_profiles ex_db = ex_profiles" "post_views ex_db = []" "story_views ex_db = []"
  "wallet_history ex_db = []" "view_transactions ex_db = []"
  "story_transactions ex_db = []" "user_notifications ex_db = []"
  by (simp_all add: ex_db_def)

section \<open>The branches of the functions\<close>

lemma charged_simps [simp]:
  "\<not> charged [(''success'', JBool False), (''error'', e)]"
  "\<not> charged [(''success'', JBool True), (''viewer_earn'', x), (''charged'', JBool False)]"
  "charged [(''success'', JBool True), (''viewer_earn'', x), (''charged'', JBool True)]"
  by (simp_all add: charged_def jget_def)

lemma select_story_Some:
  "select_story s c = Some r \<longleftrightarrow> user_storylines s c = Some r \<and> story_status r = Some ''active''"
  by (auto simp: select_story_def split: option.splits)

lemma select_post_Some:
  "select_post s c = Some r \<longleftrightarrow> posts s c = Some r \<and> post_status r = Some ''approved''"
  by (auto simp: select_post_def split: option.splits)

text \<open>
  \<^verbatim>\<open>process_story_view(text, uuid)\<close> raises on every call: its first statement compares
  the uuid column \<^verbatim>\<open>user_storylines.id\<close> with the text \<^verbatim>\<open>p_story_id\<close>.
\<close>

lemma process_story_view_raises: "process_story_view s c v = Inl UndefinedFunction"
  by (simp add: process_story_view_def select_story_text_def)

lemma process_post_view_cases:
  assumes "process_post_view s c v = Inr (j, s')"
  shows "(s' = s \<and> \<not> charged j) \<or>
    (\<exists>r p. posts s c = Some r \<and> post_status r = Some ''approved'' \<and>
       post_star_price r = Some p \<and> 0 < p \<and> post_user_id r \<noteq> v \<and>
       \<not> post_view_exists s c v \<and>
       \<not> sql_true (sql_lt (map_option (\<lambda>a. coalesce (star_balance a) 0) (user_profiles s v)) (Some p)) \<and>
       post_charge s c v (post_user_id r) p = Inr (j, s'))"
proof (cases "select_post s c")
  case None
  with assms show ?thesis by (auto simp: process_post_view_def)
next
  case (Some r)
  then have r: "posts s c = Some r" "post_status r = Some ''approved''"
    by (simp_all add: select_post_Some)
  show ?thesis
  proof (cases "post_star_price r")
    case None
    with assms Some show ?thesis
      by (auto simp: process_post_view_def coalesce_def)
  next
    case (Some p)
    with assms \<open>select_post s c = Some r\<close> r show ?thesis
      by (auto simp: process_post_view_def coalesce_def Let_def split: if_splits)
  qed
qed

lemma post_charge_chain:
  assumes "post_charge s c v u p = Inr (j, s')"
  obtains s1 s2 s3 where
    "update_user_profiles s v (deduct_stars (Some p)) = Inr s1"
    "update_user_profiles s1 u (credit_wallet_and_total (of_int p * star_value * 0.60)) = Inr s2"
    "update_user_profiles s2 v (credit_wallet (Some (of_int p * star_value * 0.20))) = Inr s3"
    "j = [(''success'', JBool True), (''viewer_earn'', JNum (of_int p * star_value * 0.20)),
          (''charged'', JBool True)]"
    "s' = s3\<lparr>wallet_history := wallet_history s3 @
                [\<lparr>wh_user_id = u, wh_type = ''upload_earn'',
                  wh_amount = of_int p * star_value * 0.60, wh_currency = ''NGN'',
                  wh_meta = [(''post_id'', JStr c), (''stars_spent'', JNum (of_int p))]\<rparr>,
                 \<lparr>wh_user_id = v, wh_type = ''view_earn'',
                  wh_amount = of_int p * star_value * 0.20, wh_currency = ''NGN'',
                  wh_meta = [(''post_id'', JStr c), (''stars_spent'', JNum (of_int p))]\<rparr>],
              view_transactions := view_transactions s3 @
                [\<lparr>vt_post_id = c, vt_viewer_id = v, vt_uploader_id = u, vt_star_price = p,
                  vt_uploader_amount = of_int p * star_value * 0.60,
                  vt_viewer_amount = of_int p * star_value * 0.20,
                  vt_platform_amount = of_int p * star_value * 0.20\<rparr>]\<rparr>"
  using assms unfolding post_charge_def Let_def pg_bind_Inr by auto

lemma insert_story_view_Inr:
  assumes "insert_story_view s c v n = Inr s'"
  shows "\<not> story_view_exists s c v"
    "s' = s\<lparr>story_views := story_views s @
              [\<lparr>sv_story_id = c, sv_viewer_id = v, sv_stars_spent = n\<rparr>]\<rparr>"
  using assms by (auto simp: insert_story_view_def split: if_splits)

lemma add_int4_Inr: "add_int4 x d = Inr y \<Longrightarrow> y = map_option (\<lambda>n. n + d) x"
  by (auto simp: add_int4_def split: option.splits if_splits)

lemma increment_view_count_tables:
  assumes "increment_view_count s c = Inr s'"
  shows "posts s' = posts s" "user_profiles s' = user_profiles s"
    "post_views s' = post_views s" "story_views s' = story_views s"
    "wallet_history s' = wallet_history s" "view_transactions s' = view_transactions s"
    "story_transactions s' = story_transactions s" "user_notifications s' = user_notifications s"
  using assms by (auto simp: increment_view_count_def pg_bind_Inr split: option.splits)

lemma increment_view_count_story:
  assumes "increment_view_count s c = Inr s'"
  shows "user_storylines s' k =
     (if k = c then
        map_option (\<lambda>r. r\<lparr>story_view_count := map_option (\<lambda>n. n + 1) (story_view_count r)\<rparr>)
          (user_storylines s c)
      else user_storylines s k)"
  using assms
  by (auto simp: increment_view_count_def pg_bind_Inr split: option.splits dest: add_int4_Inr)

lemma process_story_view_uuid_cases:
  assumes "process_story_view_uuid s c v = Inr (j, s')"
  shows "(s' = s \<and> jget j ''uploader_earn'' = None \<and> jget j ''free'' = None) \<or>
    (\<exists>r s1. user_storylines s c = Some r \<and> story_status r = Some ''active'' \<and>
       story_star_price r = Some 0 \<and> \<not> story_view_exists s c v \<and>
       insert_story_view s c v (Some 0) = Inr s1 \<and> increment_view_count s1 c = Inr s' \<and>
       j = [(''success'', JBool True), (''free'', JBool True)]) \<or>
    (\<exists>r. user_storylines s c = Some r \<and> story_status r = Some ''active'' \<and>
       story_star_price r \<noteq> Some 0 \<and> \<not> story_view_exists s c v \<and>
       \<not> sql_true (sql_lt (case user_profiles s v of None \<Rightarrow> None | Some a \<Rightarrow> star_balance a)
                      (story_star_price r)) \<and>
       story_charge_uuid s c v (story_user_id r) (story_star_price r) = Inr (j, s'))"
proof (cases "select_story s c")
  case None
  with assms show ?thesis by (auto simp: process_story_view_uuid_def jget_def)
next
  case (Some r)
  then have r: "user_storylines s c = Some r" "story_status r = Some ''active''"
    by (simp_all add: select_story_Some)
  with assms Some show ?thesis
    by (auto simp: process_story_view_uuid_def Let_def jget_def pg_bind_Inr sql_true_def sql_eq_def
          split: if_splits option.splits)
qed

lemma story_charge_uuid_chain:
  assumes "story_charge_uuid s c v u q = Inr (j, s')"
  obtains p s1 s2 s3 s4 s5 where "q = Some p"
    "update_user_profiles s v (deduct_stars (Some p)) = Inr s1"
    "update_user_profiles s1 u (credit_wallet (Some (of_int p * star_value * 0.60))) = Inr s2"
    "update_user_profiles s2 v (credit_wallet (Some (of_int p * star_value * 0.20))) = Inr s3"
    "insert_story_view s3 c v (Some p) = Inr s4"
    "j = [(''success'', JBool True), (''uploader_earn'', JNum (of_int p * star_value * 0.60)),
          (''viewer_earn'', JNum (of_int p * star_value * 0.20))]"
    "increment_view_count
       (s4\<lparr>story_transactions := story_transactions s4 @
          [\<lparr>st_story_id = c, st_uploader_id = u, st_viewer_id = v, st_stars_spent = p,
            st_uploader_earn = of_int p * star_value * 0.60,
            st_viewer_earn = of_int p * star_value * 0.20,
            st_platform_earn = of_int p * star_value * 0.20\<rparr>]\<rparr>) c = Inr s5"
    "s' = s5\<lparr>user_notifications := user_notifications s5 @
             [\<lparr>n_user_id = u, n_type = ''success'', n_notification_category = ''story_earn'',
               n_action_data =
                 [(''story_id'', JStr (uuid_text c)), (''viewer_id'', JStr (uuid_text v)),
                  (''amount'', JNum (of_int p * star_value * 0.60)),
                  (''stars'', JNum (of_int p))]\<rparr>,
              \<lparr>n_user_id = v, n_type = ''success'', n_notification_category = ''story_cashback'',
               n_action_data =
                 [(''story_id'', JStr (uuid_text c)),
                  (''amount'', JNum (of_int p * star_value * 0.20))]\<rparr>]\<rparr>"
proof (cases q)
  case None
  with assms show ?thesis
    by (auto simp: story_charge_uuid_def Let_def pg_bind_Inr insert_story_transaction_def)
next
  case (Some p)
  with assms that [of p] show ?thesis
    unfolding story_charge_uuid_def Let_def pg_bind_Inr
    by (auto simp: jnum_def insert_story_transaction_def)
qed

section \<open>What a charged step writes\<close>

lemma post_charge_tables:
  assumes "post_charge s c v u p = Inr (j, s')"
  shows "posts s' = posts s" "user_storylines s' = user_storylines s"
    "post_views s' = post_views s" "story_views s' = story_views s"
    "story_transactions s' = story_transactions s"
    "user_notifications s' = user_notifications s"
    "view_transactions s' = view_transactions s @
       [\<lparr>vt_post_id = c, vt_viewer_id = v, vt_uploader_id = u, vt_star_price = p,
         vt_uploader_amount = of_int p * star_value * 0.60,
         vt_viewer_amount = of_int p * star_value * 0.20,
         vt_platform_amount = of_int p * star_value * 0.20\<rparr>]"
    "wallet_history s' = wallet_history s @
       [\<lparr>wh_user_id = u, wh_type = ''upload_earn'',
         wh_amount = of_int p * star_value * 0.60, wh_currency = ''NGN'',
         wh_meta = [(''post_id'', JStr c), (''stars_spent'', JNum (of_int p))]\<rparr>,
        \<lparr>wh_user_id = v, wh_type = ''view_earn'',
         wh_amount = of_int p * star_value * 0.20, wh_currency = ''NGN'',
         wh_meta = [(''post_id'', JStr c), (''stars_spent'', JNum (of_int p))]\<rparr>]"
    "j = [(''success'', JBool True), (''viewer_earn'', JNum (of_int p * star_value * 0.20)),
          (''charged'', JBool True)]"
proof -
  from assms obtain s1 s2 s3 where
    c1: "update_user_profiles s v (deduct_stars (Some p)) = Inr s1" and
    c2: "update_user_profiles s1 u (credit_wallet_and_total (of_int p * star_value * 0.60)) = Inr s2" and
    c3: "update_user_profiles s2 v (credit_wallet (Some (of_int p * star_value * 0.20))) = Inr s3" and
    j: "j = [(''success'', JBool True), (''viewer_earn'', JNum (of_int p * star_value * 0.20)),
          (''charged'', JBool True)]" and
    s': "s' = s3\<lparr>wallet_history := wallet_history s3 @
                [\<lparr>wh_user_id = u, wh_type = ''upload_earn'',
                  wh_amount = of_int p * star_value * 0.60, wh_currency = ''NGN'',
                  wh_meta = [(''post_id'', JStr c), (''stars_spent'', JNum (of_int p))]\<rparr>,
                 \<lparr>wh_user_id = v, wh_type = ''view_earn'',
                  wh_amount = of_int p * star_value * 0.20, wh_currency = ''NGN'',
                  wh_meta = [(''post_id'', JStr c), (''stars_spent'', JNum (of_int p))]\<rparr>],
              view_transactions := view_transactions s3 @
                [\<lparr>vt_post_id = c, vt_viewer_id = v, vt_uploader_id = u, vt_star_price = p,
                  vt_uploader_amount = of_int p * star_value * 0.60,
                  vt_viewer_amount = of_int p * star_value * 0.20,
                  vt_platform_amount = of_int p * star_value * 0.20\<rparr>]\<rparr>"
    by (rule post_charge_chain)
  note t1 = update_user_profiles_tables [OF c1]
  note t2 = update_user_profiles_tables [OF c2]
  note t3 = update_user_profiles_tables [OF c3]
  show "j = [(''success'', JBool True), (''viewer_earn'', JNum (of_int p * star_value * 0.20)),
          (''charged'', JBool True)]" by (rule j)
  show "posts s' = posts s" using s' t1 t2 t3 by simp
  show "user_storylines s' = user_storylines s" using s' t1 t2 t3 by simp
  show "post_views s' = post_views s" using s' t1 t2 t3 by simp
  show "story_views s' = story_views s" using s' t1 t2 t3 by simp
  show "story_transactions s' = story_transactions s" using s' t1 t2 t3 by simp
  show "user_notifications s' = user_notifications s" using s' t1 t2 t3 by simp
  show "view_transactions s' = view_transactions s @
       [\<lparr>vt_post_id = c, vt_viewer_id = v, vt_uploader_id = u, vt_star_price = p,
         vt_uploader_amount = of_int p * star_value * 0.60,
         vt_viewer_amount = of_int p * star_value * 0.20,
         vt_platform_amount = of_int p * star_value * 0.20\<rparr>]"
    using s' t1 t2 t3 by simp
  show "wallet_history s' = wallet_history s @
       [\<lparr>wh_user_id = u, wh_type = ''upload_earn'',
         wh_amount = of_int p * star_value * 0.60, wh_currency = ''NGN'',
         wh_meta = [(''post_id'', JStr c), (''stars_spent'', JNum (of_int p))]\<rparr>,
        \<lparr>wh_user_id = v, wh_type = ''view_earn'',
         wh_amount = of_int p * star_value * 0.20, wh_currency = ''NGN'',
         wh_meta = [(''post_id'', JStr c), (''stars_spent'', JNum (of_int p))]\<rparr>]"
    using s' t1 t2 t3 by simp
qed


lemma story_charge_uuid_tables:
  assumes "story_charge_uuid s c v u q = Inr (j, s')"
  shows "\<exists>p. q = Some p \<and>
      j = [(''success'', JBool True), (''uploader_earn'', JNum (of_int p * star_value * 0.60)),
           (''viewer_earn'', JNum (of_int p * star_value * 0.20))] \<and>
      user_storylines s' c =
        map_option (\<lambda>r. r\<lparr>story_view_count := map_option (\<lambda>n. n + 1) (story_view_count r)\<rparr>)
          (user_storylines s c) \<and>
      (\<forall>k. k \<noteq> c \<longrightarrow> user_storylines s' k = user_storylines s k) \<and>
      user_notifications s' = user_notifications s @
        [\<lparr>n_user_id = u, n_type = ''success'', n_notification_category = ''story_earn'',
          n_action_data =
            [(''story_id'', JStr (uuid_text c)), (''viewer_id'', JStr (uuid_text v)),
             (''amount'', JNum (of_int p * star_value * 0.60)),
             (''stars'', JNum (of_int p))]\<rparr>,
         \<lparr>n_user_id = v, n_type = ''success'', n_notification_category = ''story_cashback'',
          n_action_data =
            [(''story_id'', JStr (uuid_text c)),
             (''amount'', JNum (of_int p * star_value * 0.20))]\<rparr>] \<and>
      wallet_history s' = wallet_history s \<and>
      \<not> story_view_exists s c v \<and>
      story_views s' = story_views s @
        [\<lparr>sv_story_id = c, sv_viewer_id = v, sv_stars_spent = Some p\<rparr>] \<and>
      story_transactions s' = story_transactions s @
        [\<lparr>st_story_id = c, st_uploader_id = u, st_viewer_id = v, st_stars_spent = p,
          st_uploader_earn = of_int p * star_value * 0.60,
          st_viewer_earn = of_int p * star_value * 0.20,
          st_platform_earn = of_int p * star_value * 0.20\<rparr>]"
proof -
  from assms obtain p s1 s2 s3 s4 s5 where q: "q = Some p" and
    c1: "update_user_profiles s v (deduct_stars (Some p)) = Inr s1" and
    c2: "update_user_profiles s1 u (credit_wallet (Some (of_int p * star_value * 0.60))) = Inr s2" and
    c3: "update_user_profiles s2 v (credit_wallet (Some (of_int p * star_value * 0.20))) = Inr s3" and
    c4: "insert_story_view s3 c v (Some p) = Inr s4" and
    j: "j = [(''success'', JBool True), (''uploader_earn'', JNum (of_int p * star_value * 0.60)),
          (''viewer_earn'', JNum (of_int p * star_value * 0.20))]" and
    c5: "increment_view_count
       (s4\<lparr>story_transactions := story_transactions s4 @
          [\<lparr>st_story_id = c, st_uploader_id = u, st_viewer_id = v, st_stars_spent = p,
            st_uploader_earn = of_int p * star_value * 0.60,
            st_viewer_earn = of_int p * star_value * 0.20,
            st_platform_earn = of_int p * star_value * 0.20\<rparr>]\<rparr>) c = Inr s5" and
    s': "s' = s5\<lparr>user_notifications := user_notifications s5 @
             [\<lparr>n_user_id = u, n_type = ''success'', n_notification_category = ''story_earn'',
               n_action_data =
                 [(''story_id'', JStr (uuid_text c)), (''viewer_id'', JStr (uuid_text v)),
                  (''amount'', JNum (of_int p * star_value * 0.60)),
                  (''stars'', JNum (of_int p))]\<rparr>,
              \<lparr>n_user_id = v, n_type = ''success'', n_notification_category = ''story_cashback'',
               n_action_data =
                 [(''story_id'', JStr (uuid_text c)),
                  (''amount'', JNum (of_int p * star_value * 0.20))]\<rparr>]\<rparr>"
    by (rule story_charge_uuid_chain)
  note t1 = update_user_profiles_tables [OF c1]
  note t2 = update_user_profiles_tables [OF c2]
  note t3 = update_user_profiles_tables [OF c3]
  note t4 = insert_story_view_Inr [OF c4]
  note t5 = increment_view_count_tables [OF c5]
  have st: "user_storylines s4 = user_storylines s" using t1 t2 t3 t4(2) by simp
  then have "user_storylines s' c =
        map_option (\<lambda>r. r\<lparr>story_view_count := map_option (\<lambda>n. n + 1) (story_view_count r)\<rparr>)
          (user_storylines s c)"
    using s' increment_view_count_story [OF c5, of c] by simp
  moreover have "\<forall>k. k \<noteq> c \<longrightarrow> user_storylines s' k = user_storylines s k"
    using st s' increment_view_count_story [OF c5] by simp
  moreover have "user_notifications s5 = user_notifications s" using t1 t2 t3 t4(2) t5 by simp
  moreover have "wallet_history s5 = wallet_history s" using t1 t2 t3 t4(2) t5 by simp
  moreover have "\<not> story_view_exists s c v"
    using t4(1) t1(4) t2(4) t3(4) by (simp add: story_view_exists_def)
  moreover have "story_views s5 = story_views s @
        [\<lparr>sv_story_id = c, sv_viewer_id = v, sv_stars_spent = Some p\<rparr>]"
    using t1 t2 t3 t4(2) t5 by simp
  moreover have "story_transactions s5 = story_transactions s @
        [\<lparr>st_story_id = c, st_uploader_id = u, st_viewer_id = v, st_stars_spent = p,
          st_uploader_earn = of_int p * star_value * 0.60,
          st_viewer_earn = of_int p * star_value * 0.20,
          st_platform_earn = of_int p * star_value * 0.20\<rparr>]"
    using t1 t2 t3 t4(2) t5 by simp
  ultimately show ?thesis
    using q j s' by simp
qed



section \<open>Star balances\<close>

lemma stars_nonneg_stars_of:
  "stars_nonneg s \<longleftrightarrow> (\<forall>k b. stars_of s k = Some (Some b) \<longrightarrow> 0 \<le> b)"
  by (auto simp: stars_nonneg_def stars_of_def)

lemma credit_wallet_stars: "credit_wallet x r = Inr r' \<Longrightarrow> star_balance r' = star_balance r"
  by (auto simp: credit_wallet_def pg_bind_Inr split: option.splits)

lemma credit_wallet_and_total_stars:
  "credit_wallet_and_total x r = Inr r' \<Longrightarrow> star_balance r' = star_balance r"
  by (auto simp: credit_wallet_and_total_def pg_bind_Inr)

lemma update_keeps_stars:
  assumes "update_user_profiles s k f = Inr s'"
    and "\<And>r r'. f r = Inr r' \<Longrightarrow> star_balance r' = star_balance r"
  shows "stars_of s' = stars_of s"
  using update_user_profiles_Inr [OF assms(1)] assms(2)
  by (auto simp: stars_of_def fun_eq_iff)

lemma update_deduct_stars:
  assumes "update_user_profiles s v (deduct_stars q) = Inr s'"
  shows "stars_of s' k =
     (if k = v then
        map_option (\<lambda>x. case x of None \<Rightarrow> None
                         | Some b \<Rightarrow> (case q of None \<Rightarrow> None | Some p \<Rightarrow> Some (b - p)))
          (stars_of s v)
      else stars_of s k)"
  using update_user_profiles_Inr [OF assms]
  by (auto simp: stars_of_def deduct_stars_def)

lemma stars_of_cong:
  "user_profiles s' = user_profiles s \<Longrightarrow> stars_of s' = stars_of s"
  by (simp add: stars_of_def fun_eq_iff)

lemma post_charge_stars:
  assumes "post_charge s c v u p = Inr (j, s')"
  shows "stars_of s' k =
     (if k = v then map_option (map_option (\<lambda>b. b - p)) (stars_of s v) else stars_of s k)"
proof -
  from assms obtain s1 s2 s3 where
    c1: "update_user_profiles s v (deduct_stars (Some p)) = Inr s1" and
    c2: "update_user_profiles s1 u (credit_wallet_and_total (of_int p * star_value * 0.60)) = Inr s2" and
    c3: "update_user_profiles s2 v (credit_wallet (Some (of_int p * star_value * 0.20))) = Inr s3" and
    s': "user_profiles s' = user_profiles s3"
    by (rule post_charge_chain) simp
  have "stars_of s' = stars_of s3" using s' by (rule stars_of_cong)
  also have "\<dots> = stars_of s2"
    using c3 credit_wallet_stars by (rule update_keeps_stars)
  also have "\<dots> = stars_of s1"
    using c2 credit_wallet_and_total_stars by (rule update_keeps_stars)
  finally have "stars_of s' k = stars_of s1 k" by simp
  then show ?thesis
    using update_deduct_stars [OF c1, of k]
    by (auto simp: option.map_comp comp_def split: option.splits intro!: option.map_cong)
qed

lemma map_option2_Some:
  "map_option (map_option f) x = Some (Some b) \<longleftrightarrow> (\<exists>b0. x = Some (Some b0) \<and> b = f b0)"
  by (cases x) auto

lemma guard_stars:
  "\<not> sql_true (sql_lt (map_option (\<lambda>a. coalesce (star_balance a) 0) (user_profiles s v)) (Some p))
   \<Longrightarrow> stars_of s v = Some (Some b) \<Longrightarrow> p \<le> b"
  by (auto simp: sql_true_def sql_lt_def stars_of_def coalesce_def split: option.splits)

lemma nonneg_after_deduction:
  assumes "stars_nonneg s"
    and "\<And>k. k \<noteq> v \<Longrightarrow> stars_of s' k = stars_of s k"
    and "\<And>b'. stars_of s' v = Some (Some b') \<Longrightarrow> 0 \<le> b'"
  shows "stars_nonneg s'"
  unfolding stars_nonneg_stars_of
proof (intro allI impI)
  fix k b assume "stars_of s' k = Some (Some b)"
  with assms show "0 \<le> b"
    by (cases "k = v") (auto simp: stars_nonneg_stars_of)
qed

lemma story_charge_uuid_stars:
  assumes "story_charge_uuid s c v u q = Inr (j, s')"
  shows "\<exists>p. q = Some p \<and> (\<forall>k. stars_of s' k =
       (if k = v then map_option (map_option (\<lambda>b. b - p)) (stars_of s v) else stars_of s k))"
proof -
  from assms obtain p s1 s2 s3 s4 where q: "q = Some p" and
    c1: "update_user_profiles s v (deduct_stars (Some p)) = Inr s1" and
    c2: "update_user_profiles s1 u (credit_wallet (Some (of_int p * star_value * 0.60))) = Inr s2" and
    c3: "update_user_profiles s2 v (credit_wallet (Some (of_int p * star_value * 0.20))) = Inr s3" and
    c4: "insert_story_view s3 c v (Some p) = Inr s4" and
    s': "user_profiles s' = user_profiles s4"
    by (rule story_charge_uuid_chain) (simp add: increment_view_count_tables(2))
  have "stars_of s' = stars_of s4" using s' by (rule stars_of_cong)
  also have "\<dots> = stars_of s3"
    using insert_story_view_Inr(2) [OF c4] by (simp add: stars_of_def fun_eq_iff)
  also have "\<dots> = stars_of s2"
    using c3 credit_wallet_stars by (rule update_keeps_stars)
  also have "\<dots> = stars_of s1"
    using c2 credit_wallet_stars by (rule update_keeps_stars)
  finally have e: "\<And>k. stars_of s' k = stars_of s1 k" by simp
  have "stars_of s' k =
       (if k = v then map_option (map_option (\<lambda>b. b - p)) (stars_of s v) else stars_of s k)" for k
    using update_deduct_stars [OF c1, of k] e [of k]
    by (auto simp: option.map_comp comp_def split: option.splits intro!: option.map_cong)
  with q show ?thesis by blast
qed

lemma guard_stars_uuid:
  "\<not> sql_true (sql_lt (case user_profiles s v of None \<Rightarrow> None | Some a \<Rightarrow> star_balance a) (Some p))
   \<Longrightarrow> stars_of s v = Some (Some b) \<Longrightarrow> p \<le> b"
  by (auto simp: sql_true_def sql_lt_def stars_of_def split: option.splits)

lemma deducted_nonneg:
  assumes "stars_nonneg s"
    and "\<And>k. stars_of s' k =
       (if k = v then map_option (map_option (\<lambda>b. b - p)) (stars_of s v) else stars_of s k)"
    and "\<And>b. stars_of s v = Some (Some b) \<Longrightarrow> p \<le> b"
  shows "stars_nonneg s'"
proof (rule nonneg_after_deduction [OF assms(1)])
  show "stars_of s' k = stars_of s k" if "k \<noteq> v" for k
    using that assms(2) [of k] by simp
  show "0 \<le> b'" if "stars_of s' v = Some (Some b')" for b'
  proof -
    from that assms(2) [of v]
    have "map_option (map_option (\<lambda>b. b - p)) (stars_of s v) = Some (Some b')" by simp
    then obtain b0 where "stars_of s v = Some (Some b0)" "b' = b0 - p"
      unfolding map_option2_Some by blast
    with assms(3) [of b0] show ?thesis by simp
  qed
qed

lemma process_story_view_nonneg:
  assumes "process_story_view s c v = Inr (j, s')" "stars_nonneg s"
  shows "stars_nonneg s'"
  using assms(1) by (simp add: process_story_view_raises)

lemma process_post_view_nonneg:
  assumes "process_post_view s c v = Inr (j, s')" "stars_nonneg s"
  shows "stars_nonneg s'"
  using process_post_view_cases [OF assms(1)]
proof (elim disjE exE conjE)
  assume "s' = s"
  with assms(2) show ?thesis by simp
next
  fix r :: post_row and p
  assume g: "\<not> sql_true (sql_lt (map_option (\<lambda>a. coalesce (star_balance a) 0) (user_profiles s v)) (Some p))"
    and ch: "post_charge s c v (post_user_id r) p = Inr (j, s')"
  show ?thesis
    using assms(2) post_charge_stars [OF ch] guard_stars [OF g] by (rule deducted_nonneg)
qed

lemma process_story_view_uuid_nonneg:
  assumes "process_story_view_uuid s c v = Inr (j, s')" "stars_nonneg s"
  shows "stars_nonneg s'"
  using process_story_view_uuid_cases [OF assms(1)]
proof (elim disjE exE conjE)
  assume "s' = s"
  with assms(2) show ?thesis by simp
next
  fix s1
  assume i: "insert_story_view s c v (Some 0) = Inr s1"
    and s': "increment_view_count s1 c = Inr s'"
  have "user_profiles s' = user_profiles s"
    using increment_view_count_tables(2) [OF s'] insert_story_view_Inr(2) [OF i] by simp
  with assms(2) show ?thesis by (simp add: stars_nonneg_def)
next
  fix r :: story_row
  assume g: "\<not> sql_true (sql_lt (case user_profiles s v of None \<Rightarrow> None | Some a \<Rightarrow> star_balance a)
                      (story_star_price r))"
    and ch: "story_charge_uuid s c v (story_user_id r) (story_star_price r) = Inr (j, s')"
  from story_charge_uuid_stars [OF ch] obtain p where p: "story_star_price r = Some p"
    and st: "\<And>k. stars_of s' k =
       (if k = v then map_option (map_option (\<lambda>b. b - p)) (stars_of s v) else stars_of s k)"
    by blast
  show ?thesis
    using assms(2) st guard_stars_uuid [OF g [unfolded p]] by (rule deducted_nonneg)
qed

lemma exec_nonneg: "stars_nonneg s \<Longrightarrow> stars_nonneg (exec s c)"
  by (cases c)
     (auto simp: commit_def split: sum.splits
        dest: process_post_view_nonneg process_story_view_nonneg process_story_view_uuid_nonneg)

section \<open>Evaluating the example\<close>

lemma decimal_10_2_hundredths:
  "decimal_10_2 (of_int m / 100) =
     (if \<bar>m\<bar> < 10 ^ 10 then Inr (of_int m / 100) else Inl NumericFieldOverflow)"
proof -
  have "round_half_away (of_int m / 100 * 100) = m"
    using round_half_away_of_int [of m] by simp
  moreover have "\<bar>rat_of_int m / 100\<bar> < 10 ^ 8 \<longleftrightarrow> \<bar>m\<bar> < 10 ^ 10"
  proof -
    have "\<bar>rat_of_int m / 100\<bar> < 10 ^ 8 \<longleftrightarrow> \<bar>rat_of_int m\<bar> < 10 ^ 10"
      by simp
    also have "\<dots> \<longleftrightarrow> rat_of_int \<bar>m\<bar> < rat_of_int (10 ^ 10)"
      by simp
    also have "\<dots> \<longleftrightarrow> \<bar>m\<bar> < 10 ^ 10"
      by (simp only: of_int_less_iff)
    finally show ?thesis .
  qed
  ultimately show ?thesis
    by (simp add: decimal_10_2_def)
qed

lemma decimal_10_2_of_int:
  "decimal_10_2 (of_int n) =
     (if \<bar>n\<bar> < 10 ^ 8 then Inr (of_int n) else Inl NumericFieldOverflow)"
proof -
  have "rat_of_int (n * 100) / 100 = of_int n" by simp
  moreover have "\<bar>n * 100\<bar> < 10 ^ 10 \<longleftrightarrow> \<bar>n\<bar> < 10 ^ 8" by (simp add: abs_mult)
  ultimately show ?thesis
    using decimal_10_2_hundredths [of "n * 100"] by (simp only:)
qed

lemma decimal_10_2_numeral [simp]:
  "decimal_10_2 (numeral k) =
     (if (numeral k :: int) < 10 ^ 8 then Inr (numeral k) else Inl NumericFieldOverflow)"
  using decimal_10_2_of_int [of "numeral k"] by (simp only: of_int_numeral abs_numeral)

lemma decimal_10_2_zero [simp]: "decimal_10_2 0 = Inr 0"
  using decimal_10_2_hundredths [of 0] by simp

lemmas eval_defs =
  process_post_view_def post_charge_def
  select_story_def select_post_def coalesce_def story_view_exists_def post_view_exists_def
  sql_true_def sql_lt_def star_value_def update_user_profiles_def deduct_stars_def
  insert_story_view_def credit_wallet_and_total_def credit_wallet_def
  Let_def ex_db_def ex_profiles_def ex_stories_def ex_posts_def

lemma ex_post_view_charged:
  "process_post_view ex_db ''p3'' (Uuid ''viewer'') =
     Inr ([(''success'', JBool True), (''viewer_earn'', JNum 300), (''charged'', JBool True)],
          ex_db_post_viewed)"
  by (simp add: eval_defs ex_db_post_viewed_def ex_profiles_charged_def fun_eq_iff)

lemma ex_story_view_uuid_charged:
  "process_story_view_uuid ex_db (Uuid ''s3'') (Uuid ''viewer'') =
     Inr ([(''success'', JBool True), (''uploader_earn'', JNum 900), (''viewer_earn'', JNum 300)],
          ex_db_story_viewed_uuid)"
  by (simp add: eval_defs process_story_view_uuid_def story_charge_uuid_def sql_eq_def
        insert_story_transaction_def increment_view_count_def add_int4_def jnum_def
        ex_db_story_viewed_uuid_def fun_eq_iff)

lemma decimal_10_2_whale: "decimal_10_2 (10000029999 / 100) = Inl NumericFieldOverflow"
  using decimal_10_2_hundredths [of 10000029999] by simp

text \<open>
  \<^verbatim>\<open>process_post_view\<close> looks for a row of \<^verbatim>\<open>post_views\<close> but writes none, so a second call
  for the same post and viewer charges again when the balance allows it.
\<close>

lemma post_view_charges_again:
  "run ex_db [PostView ''p3'' (Uuid ''rich''), PostView ''p3'' (Uuid ''rich'')] = ex_db_post_viewed_twice \<and>
   post_views ex_db_post_viewed_twice = [] \<and>
   length (view_transactions_of ex_db_post_viewed_twice ''p3'' (Uuid ''rich'')) = 2"
  by (simp add: commit_def eval_defs ex_db_post_viewed_twice_def view_transactions_of_def
        fun_eq_iff)

section \<open>Repeated views\<close>




section \<open>The 60/20/20 split\<close>

text \<open>
  Claim C2. Whenever \<^verbatim>\<open>process_story_view\<close> or \<^verbatim>\<open>process_post_view\<close> reports a charge,
  it has appended exactly one ledger row (\<^verbatim>\<open>story_transactions\<close>, \<^verbatim>\<open>view_transactions\<close>) for
  the content's star price \<open>p\<close>, and the three shares recorded there are, in exact decimal
  arithmetic, \<open>p * 500 * 0.60\<close>, \<open>p * 500 * 0.20\<close> and \<open>p * 500 * 0.20\<close>: they add up to
  \<open>p * 500\<close> and stand in the ratio 60 : 20 : 20. The returned \<^verbatim>\<open>viewer_earn\<close> is the
  recorded viewer share. On the declared schema \<^verbatim>\<open>process_story_view(text, uuid)\<close> raises
  \<^verbatim>\<open>undefined_function\<close> on every call and so never reports a charge; the charged views
  that occur are those of
  \<^verbatim>\<open>process_post_view\<close> and of \<^verbatim>\<open>process_story_view(uuid, uuid)\<close>; the latter reports a
  charge by returning \<^verbatim>\<open>uploader_earn\<close>, which is the recorded owner share.
\<close>

theorem charged_view_split:
  "process_story_view s p_story_text p_viewer_id = Inl UndefinedFunction \<and>
   (process_post_view s p_post_id p_viewer_id = Inr (j, s') \<and> charged j \<longrightarrow>
      (\<exists>r p t. posts s p_post_id = Some r \<and> post_star_price r = Some p \<and>
         view_transactions s' = view_transactions s @ [t] \<and>
         vt_post_id t = p_post_id \<and> vt_viewer_id t = p_viewer_id \<and>
         vt_uploader_id t = post_user_id r \<and> vt_star_price t = p \<and>
         vt_uploader_amount t + vt_viewer_amount t + vt_platform_amount t = of_int p * 500 \<and>
         vt_uploader_amount t = of_int p * 500 * 0.60 \<and>
         vt_viewer_amount t = of_int p * 500 * 0.20 \<and>
         vt_platform_amount t = of_int p * 500 * 0.20 \<and>
         vt_uploader_amount t * 20 = vt_viewer_amount t * 60 \<and>
         vt_viewer_amount t = vt_platform_amount t \<and>
         jget j ''viewer_earn'' = Some (JNum (vt_viewer_amount t)))) \<and>
   (process_story_view_uuid s p_story_id p_viewer_id = Inr (j, s') \<and>
    jget j ''uploader_earn'' \<noteq> None \<longrightarrow>
      (\<exists>r p t. user_storylines s p_story_id = Some r \<and> story_star_price r = Some p \<and>
         story_transactions s' = story_transactions s @ [t] \<and>
         st_story_id t = p_story_id \<and> st_viewer_id t = p_viewer_id \<and>
         st_uploader_id t = story_user_id r \<and> st_stars_spent t = p \<and>
         st_uploader_earn t + st_viewer_earn t + st_platform_earn t = of_int p * 500 \<and>
         st_uploader_earn t = of_int p * 500 * 0.60 \<and>
         st_viewer_earn t = of_int p * 500 * 0.20 \<and>
         st_platform_earn t = of_int p * 500 * 0.20 \<and>
         st_uploader_earn t * 20 = st_viewer_earn t * 60 \<and>
         st_viewer_earn t = st_platform_earn t \<and>
         jget j ''uploader_earn'' = Some (JNum (st_uploader_earn t)) \<and>
         jget j ''viewer_earn'' = Some (JNum (st_viewer_earn t))))"
proof (intro conjI impI)
  show "process_story_view s p_story_text p_viewer_id = Inl UndefinedFunction"
    by (rule process_story_view_raises)
next
  assume a: "process_post_view s p_post_id p_viewer_id = Inr (j, s') \<and> charged j"
  with process_post_view_cases [of s p_post_id p_viewer_id j s']
  obtain r p where r: "posts s p_post_id = Some r" "post_star_price r = Some p"
    and ch: "post_charge s p_post_id p_viewer_id (post_user_id r) p = Inr (j, s')"
    by auto
  note t = post_charge_tables [OF ch]
  show "\<exists>r p t. posts s p_post_id = Some r \<and> post_star_price r = Some p \<and>
         view_transactions s' = view_transactions s @ [t] \<and>
         vt_post_id t = p_post_id \<and> vt_viewer_id t = p_viewer_id \<and>
         vt_uploader_id t = post_user_id r \<and> vt_star_price t = p \<and>
         vt_uploader_amount t + vt_viewer_amount t + vt_platform_amount t = of_int p * 500 \<and>
         vt_uploader_amount t = of_int p * 500 * 0.60 \<and>
         vt_viewer_amount t = of_int p * 500 * 0.20 \<and>
         vt_platform_amount t = of_int p * 500 * 0.20 \<and>
         vt_uploader_amount t * 20 = vt_viewer_amount t * 60 \<and>
         vt_viewer_amount t = vt_platform_amount t \<and>
         jget j ''viewer_earn'' = Some (JNum (vt_viewer_amount t))"
    using r t(7) t(9) by (simp add: star_value_def jget_def)
next
  assume a: "process_story_view_uuid s p_story_id p_viewer_id = Inr (j, s') \<and>
    jget j ''uploader_earn'' \<noteq> None"
  with process_story_view_uuid_cases [of s p_story_id p_viewer_id j s']
  obtain r :: story_row where r: "user_storylines s p_story_id = Some r"
    and ch: "story_charge_uuid s p_story_id p_viewer_id (story_user_id r) (story_star_price r)
               = Inr (j, s')"
    by (auto simp: jget_def)
  from story_charge_uuid_tables [OF ch] r
  show "\<exists>r p t. user_storylines s p_story_id = Some r \<and> story_star_price r = Some p \<and>
         story_transactions s' = story_transactions s @ [t] \<and>
         st_story_id t = p_story_id \<and> st_viewer_id t = p_viewer_id \<and>
         st_uploader_id t = story_user_id r \<and> st_stars_spent t = p \<and>
         st_uploader_earn t + st_viewer_earn t + st_platform_earn t = of_int p * 500 \<and>
         st_uploader_earn t = of_int p * 500 * 0.60 \<and>
         st_viewer_earn t = of_int p * 500 * 0.20 \<and>
         st_platform_earn t = of_int p * 500 * 0.20 \<and>
         st_uploader_earn t * 20 = st_viewer_earn t * 60 \<and>
         st_viewer_earn t = st_platform_earn t \<and>
         jget j ''uploader_earn'' = Some (JNum (st_uploader_earn t)) \<and>
         jget j ''viewer_earn'' = Some (JNum (st_viewer_earn t))"
    by (auto simp: star_value_def jget_def)
qed

theorem charged_view_split_witness:
  "process_post_view ex_db ''p3'' (Uuid ''viewer'') =
     Inr ([(''success'', JBool True), (''viewer_earn'', JNum 300), (''charged'', JBool True)],
          ex_db_post_viewed) \<and>
   charged [(''success'', JBool True), (''viewer_earn'', JNum 300), (''charged'', JBool True)] \<and>
   (\<exists>t. view_transactions ex_db_post_viewed = view_transactions ex_db @ [t] \<and>
        vt_star_price t = 3 \<and>
        vt_uploader_amount t + vt_viewer_amount t + vt_platform_amount t = 3 * 500 \<and>
        vt_uploader_amount t = 900 \<and> vt_viewer_amount t = 300 \<and> vt_platform_amount t = 300) \<and>
   process_story_view_uuid ex_db (Uuid ''s3'') (Uuid ''viewer'') =
     Inr ([(''success'', JBool True), (''uploader_earn'', JNum 900), (''viewer_earn'', JNum 300)],
          ex_db_story_viewed_uuid) \<and>
   jget [(''success'', JBool True), (''uploader_earn'', JNum 900), (''viewer_earn'', JNum 300)]
     ''uploader_earn'' \<noteq> None \<and>
   (\<exists>t. story_transactions ex_db_story_viewed_uuid = story_transactions ex_db @ [t] \<and>
        st_stars_spent t = 3 \<and>
        st_uploader_earn t + st_viewer_earn t + st_platform_earn t = 3 * 500 \<and>
        st_uploader_earn t = 900 \<and> st_viewer_earn t = 300 \<and> st_platform_earn t = 300)"
  using
    charged_view_split [where s = ex_db and p_story_text = "''s3''" and
      p_viewer_id = "Uuid ''viewer''" and p_post_id = "''p3''" and p_story_id = "Uuid ''none''" and
      j = "[(''success'', JBool True), (''viewer_earn'', JNum 300), (''charged'', JBool True)]" and
      s' = ex_db_post_viewed]
    charged_view_split [where s = ex_db and p_story_text = "''s3''" and
      p_viewer_id = "Uuid ''viewer''" and p_post_id = "''none''" and p_story_id = "Uuid ''s3''" and
      j = "[(''success'', JBool True), (''uploader_earn'', JNum 900), (''viewer_earn'', JNum 300)]" and
      s' = ex_db_story_viewed_uuid]
  by (auto simp: ex_story_view_uuid_charged ex_post_view_charged ex_db_tables ex_stories_def
        ex_posts_def jget_def)

section \<open>No negative star balance\<close>

text \<open>
  Claim C3. From a database in which every star balance is non-negative, every sequence of
  calls of the three functions (each committed, or rolled back when it raises) leads to a
  database in which every star balance is non-negative. The only statement that lowers a star
  balance is the deduction of the charged step, which runs after the comparison of the viewer's
  balance with the price has not found it smaller.
\<close>

theorem star_balance_never_negative:
  "stars_nonneg s \<Longrightarrow> stars_nonneg (run s cs)"
  by (induction cs arbitrary: s) (simp_all add: exec_nonneg)

theorem star_balance_never_negative_witness:
  "stars_nonneg ex_db \<and>
   stars_nonneg (run ex_db [StoryViewUuid (Uuid ''s3'') (Uuid ''viewer''),
                            StoryViewUuid (Uuid ''s3'') (Uuid ''viewer''),
                            PostView ''p3'' (Uuid ''viewer''), PostView ''p3'' (Uuid ''poor''),
                            StoryView ''s3'' (Uuid ''rich''), StoryViewUuid (Uuid ''s3'') (Uuid ''rich''),
                            PostView ''p3'' (Uuid ''rich''), PostView ''p3'' (Uuid ''rich'')])"
proof -
  have h: "stars_nonneg ex_db"
    by (simp add: stars_nonneg_def ex_db_tables ex_profiles_def)
  show ?thesis
    by (rule conjI [OF h star_balance_never_negative [OF h]])
qed

section \<open>Free views and views of one's own content\<close>

text \<open>
  Claim C4, as amended. For a post that is found, a price of zero (or below, or NULL) or a
  viewer who is the owner makes \<^verbatim>\<open>process_post_view\<close> return success with
  \<^verbatim>\<open>charged = false\<close> and \<^verbatim>\<open>viewer_earn = 0\<close> and leave the whole database as it was,
  whatever the balances: no star balance is lowered, no ledger row is written, and no view row
  is written either.
\<close>

theorem free_or_own_view_changes_nothing:
  "posts s p_post_id = Some pr \<and> post_status pr = Some ''approved'' \<and>
    (coalesce (post_star_price pr) 0 \<le> 0 \<or> post_user_id pr = p_viewer_id) \<longrightarrow>
      process_post_view s p_post_id p_viewer_id =
        Inr ([(''success'', JBool True), (''viewer_earn'', JNum 0), (''charged'', JBool False)], s)"
  by (auto simp: process_post_view_def select_post_def)

theorem free_or_own_view_changes_nothing_witness:
  "posts ex_db ''p0'' =
     Some \<lparr>post_user_id = Uuid ''owner'', post_star_price = Some 0,
            post_status = Some ''approved'', post_view_count = Some 0\<rparr> \<and>
   posts ex_db ''p3'' =
     Some \<lparr>post_user_id = Uuid ''owner'', post_star_price = Some 3,
            post_status = Some ''approved'', post_view_count = Some 0\<rparr> \<and>
   process_post_view ex_db ''p0'' (Uuid ''viewer'') =
     Inr ([(''success'', JBool True), (''viewer_earn'', JNum 0), (''charged'', JBool False)], ex_db) \<and>
   process_post_view ex_db ''p3'' (Uuid ''owner'') =
     Inr ([(''success'', JBool True), (''viewer_earn'', JNum 0), (''charged'', JBool False)], ex_db)"
  using
    free_or_own_view_changes_nothing [of ex_db "''p0''"
      "\<lparr>post_user_id = Uuid ''owner'', post_star_price = Some 0,
            post_status = Some ''approved'', post_view_count = Some 0\<rparr>" "Uuid ''viewer''"]
    free_or_own_view_changes_nothing [of ex_db "''p3''"
      "\<lparr>post_user_id = Uuid ''owner'', post_star_price = Some 3,
            post_status = Some ''approved'', post_view_count = Some 0\<rparr>" "Uuid ''owner''"]
  by (simp add: ex_db_tables ex_posts_def)

text \<open>
  Claim C4 as stated asks for a view row with \<^verbatim>\<open>stars_spent = 0\<close>. On the example
  database the view of a free post and the owner's view of the priced post both return
  \<^verbatim>\<open>charged = false\<close> with the database unchanged, and its table of post views is empty.
\<close>

theorem free_view_counterexample:
  "process_post_view ex_db ''p0'' (Uuid ''viewer'') =
     Inr ([(''success'', JBool True), (''viewer_earn'', JNum 0), (''charged'', JBool False)], ex_db) \<and>
   process_post_view ex_db ''p3'' (Uuid ''owner'') =
     Inr ([(''success'', JBool True), (''viewer_earn'', JNum 0), (''charged'', JBool False)], ex_db) \<and>
   post_views ex_db = []"
  by (simp add: process_post_view_def select_post_def ex_db_tables ex_posts_def)

section \<open>Insufficient stars\<close>



section \<open>Five stars, a price of three\<close>

text \<open>
  Claim C6, as amended. A viewer holds 5 stars and a wallet of \<open>v0\<close>, the owner of the post
  is someone else and has a wallet of \<open>w0\<close>; both wallets are values of \<^verbatim>\<open>DECIMAL(10,2)\<close>, and
  \<open>v0 + 300\<close> and \<open>w0 + 900\<close> are still below \<open>10\<^sup>8\<close>. Then a view by \<^verbatim>\<open>process_post_view\<close>
  of a found post priced at 3 stars, for which the viewer has no view row, returns success
  with \<^verbatim>\<open>charged = true\<close> and \<^verbatim>\<open>viewer_earn = 300\<close>, leaves the viewer with 2 stars and a
  wallet of \<open>v0 + 300\<close> and the owner with a wallet of \<open>w0 + 900\<close>, and appends exactly one
  ledger row, which records (900, 300, 300) for a price of 3.
\<close>

theorem five_stars_three_star_content:
  assumes "u \<noteq> v"
    and "user_profiles s v = Some a" "star_balance a = Some 5" "wallet_balance a = Some v0"
    and "user_profiles s u = Some b" "wallet_balance b = Some w0"
    and "is_decimal_10_2 v0" "v0 + 300 < 10 ^ 8"
    and "is_decimal_10_2 w0" "w0 + 900 < 10 ^ 8"
    and "posts s p_post_id = Some pr" "post_status pr = Some ''approved''"
    and "post_star_price pr = Some 3" "post_user_id pr = u"
    and "\<not> post_view_exists s p_post_id v"
  shows
   "\<exists>s'. process_post_view s p_post_id v =
           Inr ([(''success'', JBool True), (''viewer_earn'', JNum 300),
                 (''charged'', JBool True)], s') \<and>
         user_profiles s' v =
           Some (a\<lparr>star_balance := Some 2, wallet_balance := Some (v0 + 300)\<rparr>) \<and>
         user_profiles s' u =
           Some (b\<lparr>wallet_balance := Some (w0 + 900),
                    total_earned := Some (coalesce (total_earned b) 0 + 900)\<rparr>) \<and>
         view_transactions s' = view_transactions s @
           [\<lparr>vt_post_id = p_post_id, vt_viewer_id = v, vt_uploader_id = u,
             vt_star_price = 3, vt_uploader_amount = 900, vt_viewer_amount = 300,
             vt_platform_amount = 300\<rparr>]"
proof -
  have dv: "decimal_10_2 (v0 + 300) = Inr (v0 + 300)"
    using assms(7,8) by (rule credit_in_range)
  have dw: "decimal_10_2 (w0 + 900) = Inr (w0 + 900)"
    using assms(9,10) by (rule credit_in_range)
  have nv: "\<not> sql_true (sql_lt (map_option (\<lambda>r. coalesce (star_balance r) 0) (user_profiles s v)) (Some 3))"
    using assms(2,3) by (simp add: sql_true_def sql_lt_def coalesce_def)
  have post:
     "\<exists>s'. post_charge s p_post_id v u 3 =
               Inr ([(''success'', JBool True), (''viewer_earn'', JNum 300),
                     (''charged'', JBool True)], s') \<and>
             user_profiles s' v =
               Some (a\<lparr>star_balance := Some 2, wallet_balance := Some (v0 + 300)\<rparr>) \<and>
             user_profiles s' u =
               Some (b\<lparr>wallet_balance := Some (w0 + 900),
                        total_earned := Some (coalesce (total_earned b) 0 + 900)\<rparr>) \<and>
             view_transactions s' = view_transactions s @
               [\<lparr>vt_post_id = p_post_id, vt_viewer_id = v, vt_uploader_id = u,
                 vt_star_price = 3, vt_uploader_amount = 900, vt_viewer_amount = 300,
                 vt_platform_amount = 300\<rparr>]"
    using assms(1-6) dv dw
    by (simp add: post_charge_def Let_def star_value_def update_user_profiles_def deduct_stars_def
          credit_wallet_and_total_def credit_wallet_def)
  have "process_post_view s p_post_id v = post_charge s p_post_id v u 3"
    using assms(1,11-15) nv
    by (simp add: process_post_view_def select_post_def coalesce_def)
  with post show ?thesis
    by simp
qed

theorem five_stars_three_star_content_witness:
  "Uuid ''owner'' \<noteq> Uuid ''viewer'' \<and> is_decimal_10_2 0 \<and>
   (0::rat) + 300 < 10 ^ 8 \<and> (0::rat) + 900 < 10 ^ 8 \<and>
   user_profiles ex_db (Uuid ''viewer'') =
     Some \<lparr>star_balance = Some 5, wallet_balance = Some 0, total_earned = Some 0\<rparr> \<and>
   user_profiles ex_db (Uuid ''owner'') =
     Some \<lparr>star_balance = Some 0, wallet_balance = Some 0, total_earned = Some 0\<rparr> \<and>
   posts ex_db ''p3'' =
     Some \<lparr>post_user_id = Uuid ''owner'', post_star_price = Some 3,
            post_status = Some ''approved'', post_view_count = Some 0\<rparr> \<and>
   \<not> post_view_exists ex_db ''p3'' (Uuid ''viewer'') \<and>
   (\<exists>s'. process_post_view ex_db ''p3'' (Uuid ''viewer'') =
           Inr ([(''success'', JBool True), (''viewer_earn'', JNum 300),
                 (''charged'', JBool True)], s') \<and>
         user_profiles s' (Uuid ''viewer'') =
           Some \<lparr>star_balance = Some 2, wallet_balance = Some 300, total_earned = Some 0\<rparr> \<and>
         user_profiles s' (Uuid ''owner'') =
           Some \<lparr>star_balance = Some 0, wallet_balance = Some 900, total_earned = Some 900\<rparr> \<and>
         view_transactions s' =
           [\<lparr>vt_post_id = ''p3'', vt_viewer_id = Uuid ''viewer'', vt_uploader_id = Uuid ''owner'',
             vt_star_price = 3, vt_uploader_amount = 900, vt_viewer_amount = 300,
             vt_platform_amount = 300\<rparr>])"
proof -
  have h1: "Uuid ''owner'' \<noteq> Uuid ''viewer''" by simp
  have h2: "user_profiles ex_db (Uuid ''viewer'') =
     Some \<lparr>star_balance = Some 5, wallet_balance = Some 0, total_earned = Some 0\<rparr>"
    by (simp add: ex_db_tables ex_profiles_def)
  have h3: "star_balance \<lparr>star_balance = Some 5, wallet_balance = Some 0, total_earned = Some 0\<rparr> = Some 5"
    by simp
  have h4: "wallet_balance \<lparr>star_balance = Some 5, wallet_balance = Some 0, total_earned = Some 0\<rparr> = Some 0"
    by simp
  have h5: "user_profiles ex_db (Uuid ''owner'') =
     Some \<lparr>star_balance = Some 0, wallet_balance = Some 0, total_earned = Some 0\<rparr>"
    by (simp add: ex_db_tables ex_profiles_def)
  have h6: "wallet_balance \<lparr>star_balance = Some 0, wallet_balance = Some 0, total_earned = Some 0\<rparr> = Some 0"
    by simp
  have h7: "is_decimal_10_2 0"
    using is_decimal_10_2_hundredths [of 0] by simp
  have h8: "(0::rat) + 300 < 10 ^ 8" by simp
  have h9: "(0::rat) + 900 < 10 ^ 8" by simp
  have h10: "posts ex_db ''p3'' =
     Some \<lparr>post_user_id = Uuid ''owner'', post_star_price = Some 3,
            post_status = Some ''approved'', post_view_count = Some 0\<rparr>"
    by (simp add: ex_db_tables ex_posts_def)
  have h11: "post_status \<lparr>post_user_id = Uuid ''owner'', post_star_price = Some 3,
            post_status = Some ''approved'', post_view_count = Some 0\<rparr> = Some ''approved''"
    by simp
  have h12: "post_star_price \<lparr>post_user_id = Uuid ''owner'', post_star_price = Some 3,
            post_status = Some ''approved'', post_view_count = Some 0\<rparr> = Some 3"
    by simp
  have h13: "post_user_id \<lparr>post_user_id = Uuid ''owner'', post_star_price = Some 3,
            post_status = Some ''approved'', post_view_count = Some 0\<rparr> = Uuid ''owner''"
    by simp
  have h14: "\<not> post_view_exists ex_db ''p3'' (Uuid ''viewer'')"
    by (simp add: post_view_exists_def ex_db_tables)
  show ?thesis
    using h1 h2 h5 h7 h10 h14
      five_stars_three_star_content [OF h1 h2 h3 h4 h5 h6 h7 h8 h7 h9 h10 h11 h12 h13 h14]
    by (simp add: ex_db_tables)
qed

text \<open>
  Claim C6 as stated speaks of every wallet balance. A viewer with 5 stars whose wallet holds
  99999999.99, the largest value of the column, cannot be credited: the statement that adds
  the cashback raises \<^verbatim>\<open>numeric field overflow\<close>, the call is rolled back and the viewer
  keeps 5 stars and the wallet.
\<close>

theorem wallet_overflow_counterexample:
  "user_profiles ex_db (Uuid ''whale'') =
     Some \<lparr>star_balance = Some 5, wallet_balance = Some 99999999.99, total_earned = Some 0\<rparr> \<and>
   is_decimal_10_2 99999999.99 \<and>
   posts ex_db ''p3'' =
     Some \<lparr>post_user_id = Uuid ''owner'', post_star_price = Some 3,
            post_status = Some ''approved'', post_view_count = Some 0\<rparr> \<and>
   process_post_view ex_db ''p3'' (Uuid ''whale'') = Inl NumericFieldOverflow \<and>
   exec ex_db (PostView ''p3'' (Uuid ''whale'')) = ex_db"
proof -
  have "is_decimal_10_2 99999999.99"
    using is_decimal_10_2_hundredths [of 9999999999] by simp
  moreover have "process_post_view ex_db ''p3'' (Uuid ''whale'') = Inl NumericFieldOverflow"
    by (simp add: eval_defs decimal_10_2_whale)
  ultimately show ?thesis
    by (simp add: commit_def ex_db_tables ex_profiles_def ex_posts_def)
qed

section \<open>View counter and notifications\<close>

text \<open>
  Claim C7, as amended. In the first story function, \<^verbatim>\<open>process_story_view(uuid, uuid)\<close>,
  every call that returns earnings has, in the same transaction, raised the story's
  \<^verbatim>\<open>view_count\<close> by one and appended two rows to \<^verbatim>\<open>user_notifications\<close>, the first to
  the owner (\<^verbatim>\<open>story_earn\<close>) and the second to the viewer (\<^verbatim>\<open>story_cashback\<close>). The
  functions of migration 20251106230001 never change a view counter or
  \<^verbatim>\<open>user_notifications\<close>: \<^verbatim>\<open>process_story_view(text, uuid)\<close> raises
  \<^verbatim>\<open>undefined_function\<close> on every call and changes nothing at all, and a charged view of
  \<^verbatim>\<open>process_post_view\<close> appends two rows to \<^verbatim>\<open>wallet_history\<close> instead, the first for
  the owner and the second for the viewer.
\<close>

theorem charged_view_counter_and_notifications:
  "(process_story_view_uuid s p_story_id p_viewer_id = Inr (j, s') \<and>
    jget j ''uploader_earn'' \<noteq> None \<longrightarrow>
      (\<exists>r n1 n2. user_storylines s p_story_id = Some r \<and>
         user_storylines s' p_story_id =
           Some (r\<lparr>story_view_count := map_option (\<lambda>n. n + 1) (story_view_count r)\<rparr>) \<and>
         user_notifications s' = user_notifications s @ [n1, n2] \<and>
         n_user_id n1 = story_user_id r \<and> n_notification_category n1 = ''story_earn'' \<and>
         n_user_id n2 = p_viewer_id \<and> n_notification_category n2 = ''story_cashback'')) \<and>
   process_story_view s p_story_text p_viewer_id = Inl UndefinedFunction \<and>
   exec s (StoryView p_story_text p_viewer_id) = s \<and>
   (process_post_view s p_post_id p_viewer_id = Inr (j, s') \<longrightarrow>
      posts s' = posts s \<and>
      user_notifications s' = user_notifications s \<and>
      (charged j \<longrightarrow>
         (\<exists>r w1 w2. posts s p_post_id = Some r \<and>
            wallet_history s' = wallet_history s @ [w1, w2] \<and>
            wh_user_id w1 = post_user_id r \<and> wh_type w1 = ''upload_earn'' \<and>
            wh_user_id w2 = p_viewer_id \<and> wh_type w2 = ''view_earn'')))"
proof (intro conjI impI)
  assume a: "process_story_view_uuid s p_story_id p_viewer_id = Inr (j, s') \<and>
    jget j ''uploader_earn'' \<noteq> None"
  with process_story_view_uuid_cases [of s p_story_id p_viewer_id j s']
  obtain r :: story_row where r: "user_storylines s p_story_id = Some r"
    and ch: "story_charge_uuid s p_story_id p_viewer_id (story_user_id r) (story_star_price r)
               = Inr (j, s')"
    by (auto simp: jget_def)
  from story_charge_uuid_tables [OF ch] r
  show "\<exists>r n1 n2. user_storylines s p_story_id = Some r \<and>
         user_storylines s' p_story_id =
           Some (r\<lparr>story_view_count := map_option (\<lambda>n. n + 1) (story_view_count r)\<rparr>) \<and>
         user_notifications s' = user_notifications s @ [n1, n2] \<and>
         n_user_id n1 = story_user_id r \<and> n_notification_category n1 = ''story_earn'' \<and>
         n_user_id n2 = p_viewer_id \<and> n_notification_category n2 = ''story_cashback''"
    by auto
next
  show "process_story_view s p_story_text p_viewer_id = Inl UndefinedFunction"
    by (rule process_story_view_raises)
next
  show "exec s (StoryView p_story_text p_viewer_id) = s"
    by (simp add: commit_def process_story_view_raises)
next
  assume a: "process_post_view s p_post_id p_viewer_id = Inr (j, s')"
  from process_post_view_cases [OF a]
  show "posts s' = posts s"
    by (auto dest: post_charge_tables(1))
  from process_post_view_cases [OF a]
  show "user_notifications s' = user_notifications s"
    by (auto dest: post_charge_tables(6))
  assume c: "charged j"
  with process_post_view_cases [OF a]
  obtain r :: post_row and p where r: "posts s p_post_id = Some r"
    and ch: "post_charge s p_post_id p_viewer_id (post_user_id r) p = Inr (j, s')"
    by auto
  from post_charge_tables(8) [OF ch] r
  show "\<exists>r w1 w2. posts s p_post_id = Some r \<and>
            wallet_history s' = wallet_history s @ [w1, w2] \<and>
            wh_user_id w1 = post_user_id r \<and> wh_type w1 = ''upload_earn'' \<and>
            wh_user_id w2 = p_viewer_id \<and> wh_type w2 = ''view_earn''"
    by simp
qed

theorem charged_view_counter_and_notifications_witness:
  "process_story_view_uuid ex_db (Uuid ''s3'') (Uuid ''viewer'') =
     Inr ([(''success'', JBool True), (''uploader_earn'', JNum 900), (''viewer_earn'', JNum 300)],
          ex_db_story_viewed_uuid) \<and>
   jget [(''success'', JBool True), (''uploader_earn'', JNum 900), (''viewer_earn'', JNum 300)]
     ''uploader_earn'' \<noteq> None \<and>
   (\<exists>r n1 n2. user_storylines ex_db (Uuid ''s3'') = Some r \<and>
      user_storylines ex_db_story_viewed_uuid (Uuid ''s3'') =
        Some (r\<lparr>story_view_count := map_option (\<lambda>n. n + 1) (story_view_count r)\<rparr>) \<and>
      user_notifications ex_db_story_viewed_uuid = user_notifications ex_db @ [n1, n2] \<and>
      n_user_id n1 = story_user_id r \<and> n_notification_category n1 = ''story_earn'' \<and>
      n_user_id n2 = Uuid ''viewer'' \<and> n_notification_category n2 = ''story_cashback'') \<and>
   process_post_view ex_db ''p3'' (Uuid ''viewer'') =
     Inr ([(''success'', JBool True), (''viewer_earn'', JNum 300), (''charged'', JBool True)],
          ex_db_post_viewed) \<and>
   charged [(''success'', JBool True), (''viewer_earn'', JNum 300), (''charged'', JBool True)] \<and>
   posts ex_db_post_viewed = posts ex_db \<and>
   user_notifications ex_db_post_viewed = user_notifications ex_db \<and>
   (\<exists>w1 w2. wallet_history ex_db_post_viewed = wallet_history ex_db @ [w1, w2] \<and>
      wh_user_id w1 = Uuid ''owner'' \<and> wh_type w1 = ''upload_earn'' \<and>
      wh_user_id w2 = Uuid ''viewer'' \<and> wh_type w2 = ''view_earn'')"
  using
    charged_view_counter_and_notifications [where s = ex_db and p_story_id = "Uuid ''s3''" and
      p_viewer_id = "Uuid ''viewer''" and p_story_text = "''s3''" and p_post_id = "''none''" and
      j = "[(''success'', JBool True), (''uploader_earn'', JNum 900), (''viewer_earn'', JNum 300)]"
      and s' = ex_db_story_viewed_uuid]
    charged_view_counter_and_notifications [where s = ex_db and p_story_id = "Uuid ''none''" and
      p_viewer_id = "Uuid ''viewer''" and p_story_text = "''s3''" and p_post_id = "''p3''" and
      j = "[(''success'', JBool True), (''viewer_earn'', JNum 300), (''charged'', JBool True)]"
      and s' = ex_db_post_viewed]
  by (auto simp: ex_story_view_uuid_charged ex_post_view_charged jget_def ex_db_tables
        ex_posts_def)

text \<open>
  Claim C7 as stated fails for the later migration: the charged view of the example post
  leaves the post's view counter at 0 and \<^verbatim>\<open>user_notifications\<close> empty.
\<close>

theorem charged_view_counterexample:
  "process_post_view ex_db ''p3'' (Uuid ''viewer'') =
     Inr ([(''success'', JBool True), (''viewer_earn'', JNum 300), (''charged'', JBool True)],
          ex_db_post_viewed) \<and>
   posts ex_db ''p3'' =
     Some \<lparr>post_user_id = Uuid ''owner'', post_star_price = Some 3,
            post_status = Some ''approved'', post_view_count = Some 0\<rparr> \<and>
   posts ex_db_post_viewed ''p3'' =
     Some \<lparr>post_user_id = Uuid ''owner'', post_star_price = Some 3,
            post_status = Some ''approved'', post_view_count = Some 0\<rparr> \<and>
   user_notifications ex_db_post_viewed = []"
proof -
  have "posts ex_db_post_viewed = ex_posts"
    and "user_notifications ex_db_post_viewed = []"
    by (simp_all add: ex_db_post_viewed_def ex_db_def)
  then show ?thesis
    by (simp add: ex_post_view_charged ex_db_tables ex_posts_def)
qed

section \<open>Unavailable content\<close>



section \<open>A NULL price\<close>



end
